theory Spec2Isabelle
  imports Main
begin

section \<open>The Omada controller client: data model\<close>

text \<open>
  The Go package \<open>omada\<close> holds a client of an Omada controller's REST interface:
  a session (token and base URL), a request executor, the two-step login, a policy that
  retries a call once after a token expiry, and the paginated fetch of connected clients.
  This theory embeds that package function by function. Mutation of the receiver
  \<open>c *Client\<close> is explicit state passing; a Go \<open>error\<close> result is an
  \<open>error option\<close> with \<open>None\<close> for \<open>nil\<close>; the standard library and the
  controller behind the network are an environment that the functions take as a parameter.
\<close>

subsection \<open>Errors\<close>

text \<open>
  \<open>errTokenExpired\<close> is the one sentinel of the package, recognised by identity through
  \<open>errors.Is\<close>. Every other error value is built where it arises (\<open>fmt.Errorf\<close>
  without \<open>%w\<close>, or an error of the standard library) and wraps nothing, so it is a
  constructor of its own carrying the values that its message is formatted from.
\<close>

datatype error =
    errTokenExpired
  | URLError string
  | TransportError string
  | HTTPStatusError string string
  | DecodeError
  | MissingControllerID int string
  | AuthFailed int string
  | ApplicationError int string

definition errors_Is :: "error option \<Rightarrow> error \<Rightarrow> bool" where
  "errors_Is err target = (err = Some target)"

text \<open>A call either returns or panics (a nil pointer dereference).\<close>

datatype 'a outcome = Panicked | Returned 'a

subsection \<open>Domain records and page envelopes\<close>

text \<open>The \<open>int64\<close> fields are only stored and compared, never added: they are \<open>int\<close>.\<close>

record ConnectedClient =
  Active :: bool
  Activity :: int
  ApMAC :: string
  ApName :: string
  AuthStatus :: int
  Channel :: int
  ConnectDevType :: string
  ConnectType :: int
  DeviceType :: string
  DownPacket :: int
  Guest :: bool
  HostName :: string
  IP :: string
  LastSeen :: int
  MAC :: string
  Manager :: bool
  Name :: string
  PowerSave :: bool
  RadioID :: int
  RSSI :: int
  RxRate :: int
  SignalLevel :: int
  SignalRank :: int
  SSID :: string
  TrafficDown :: int
  TrafficUp :: int
  TxRate :: int
  UpPacket :: int
  Uptime :: int
  WifiMode :: int
  Wireless :: bool

text \<open>
  A \<open>*ConnectedClient\<close> is a pointer: \<open>None\<close> is \<open>nil\<close> (a JSON \<open>null\<close> inside
  \<open>data\<close> decodes to it), \<open>Some r\<close> points to the record \<open>r\<close>.
\<close>

type_synonym ConnectedClient_ptr = "ConnectedClient option"

text \<open>The anonymous struct of the field \<open>Result\<close> of \<open>ClientsResult\<close>.\<close>

record ClientsPage =
  CurrentPage :: int
  CurrentSize :: int
  TotalRows :: int
  Data :: "ConnectedClient_ptr list"

record ClientsResult =
  ErrorCode :: int
  Msg :: string
  Result :: ClientsPage

text \<open>The zero value that \<open>var r ClientsResult\<close> declares.\<close>

definition ClientsResult_zero :: ClientsResult where
  "ClientsResult_zero =
     \<lparr>ErrorCode = 0, Msg = [],
      Result = \<lparr>CurrentPage = 0, CurrentSize = 0, TotalRows = 0, Data = []\<rparr>\<rparr>"

definition maxPages :: nat where
  "maxPages = 10"

section \<open>The standard library\<close>

subsection \<open>Strings and formatting\<close>

definition strings_HasSuffix :: "string \<Rightarrow> string \<Rightarrow> bool" where
  "strings_HasSuffix s suf =
     (length suf \<le> length s \<and> drop (length s - length suf) s = suf)"

definition strings_TrimSuffix :: "string \<Rightarrow> string \<Rightarrow> string" where
  "strings_TrimSuffix s suf =
     (if strings_HasSuffix s suf then take (length s - length suf) s else s)"

text \<open>The verb \<open>%d\<close> on a page number, which is never negative.\<close>

definition digit :: "nat \<Rightarrow> char" where
  "digit n = ''0123456789'' ! n"

fun itoa :: "nat \<Rightarrow> string" where
  "itoa n = (if n < 10 then [digit n] else itoa (n div 10) @ [digit (n mod 10)])"

subsection \<open>\<open>net/url\<close>: escaping\<close>

text \<open>
  \<open>url.QueryEscape s\<close> is \<open>escape(s, encodeQueryComponent)\<close>. In that mode
  \<open>shouldEscape\<close> keeps the letters, the digits and \<open>- _ . ~\<close>, and \<open>escape\<close>
  writes a space as \<open>+\<close> and every other byte that should be escaped as \<open>%\<close>
  followed by two upper-case hexadecimal digits.
\<close>

definition alphanum :: "char \<Rightarrow> bool" where
  "alphanum c =
     (let n = (of_char c :: nat)
      in (97 \<le> n \<and> n \<le> 122) \<or> (65 \<le> n \<and> n \<le> 90) \<or> (48 \<le> n \<and> n \<le> 57))"

definition unreserved :: "char \<Rightarrow> bool" where
  "unreserved c = (alphanum c \<or> c \<in> set ''-_.~'')"

definition shouldEscape :: "char \<Rightarrow> bool" where
  "shouldEscape c = (\<not> unreserved c)"

definition upperhex :: "nat \<Rightarrow> char" where
  "upperhex n = ''0123456789ABCDEF'' ! n"

fun escape :: "string \<Rightarrow> string" where
  "escape [] = []"
| "escape (c # s) =
     (if c = CHR '' '' then CHR ''+'' # escape s
      else if shouldEscape c
        then CHR ''%'' # upperhex (of_char c div 16) # upperhex (of_char c mod 16) # escape s
      else c # escape s)"

definition url_QueryEscape :: "string \<Rightarrow> string" where
  "url_QueryEscape s = escape s"

subsection \<open>\<open>net/url\<close>: joining paths\<close>

text \<open>
  A plain URL is \<open>scheme://host\<close>, an optional \<open>:port\<close>, then path segments each
  introduced by \<open>/\<close>, and an optional final \<open>/\<close>: lower-case letters in the scheme,
  letters, digits, \<open>.\<close> and \<open>-\<close> in the host, digits in the port, and plain segments,
  which are non-empty, made of unreserved characters, and neither \<open>.\<close> nor \<open>..\<close>.
  Such a URL has no query, fragment, user, escape or dot segment.
\<close>

definition lower :: "char \<Rightarrow> bool" where
  "lower c = (let n = (of_char c :: nat) in 97 \<le> n \<and> n \<le> 122)"

definition isdigit :: "char \<Rightarrow> bool" where
  "isdigit c = (let n = (of_char c :: nat) in 48 \<le> n \<and> n \<le> 57)"

definition hostchar :: "char \<Rightarrow> bool" where
  "hostchar c = (alphanum c \<or> c \<in> set ''.-'')"

definition plain_segment :: "string \<Rightarrow> bool" where
  "plain_segment s = (s \<noteq> [] \<and> list_all unreserved s \<and> s \<noteq> ''.'' \<and> s \<noteq> ''..'')"

function plain_path :: "string \<Rightarrow> bool" where
  "plain_path [] = True"
| "plain_path (c # cs) =
     (c = CHR ''/'' \<and>
      (cs = [] \<or>
       (plain_segment (takeWhile (\<lambda>x. x \<noteq> CHR ''/'') cs) \<and>
        plain_path (dropWhile (\<lambda>x. x \<noteq> CHR ''/'') cs))))"
  by pat_completeness auto
termination
  by (relation "measure length") (auto simp: length_dropWhile_le less_Suc_eq_le)

definition plain_port :: "string \<Rightarrow> bool" where
  "plain_port s =
     (case s of
        [] \<Rightarrow> True
      | c # cs \<Rightarrow>
          if c = CHR '':''
          then takeWhile isdigit cs \<noteq> [] \<and> plain_path (dropWhile isdigit cs)
          else plain_path s)"

definition plain_url :: "string \<Rightarrow> bool" where
  "plain_url u =
     (let scheme = takeWhile lower u;
          rest = dropWhile lower u;
          host = takeWhile hostchar (drop 3 rest);
          tail = dropWhile hostchar (drop 3 rest)
      in scheme \<noteq> [] \<and> take 3 rest = ''://'' \<and> host \<noteq> [] \<and> plain_port tail)"

section \<open>Deduplication\<close>

text \<open>
  \<open>dedupeClients\<close> walks the input once with the map \<open>seen\<close> and the slice \<open>out\<close>.
  Reading \<open>item.MAC\<close> through a nil pointer panics.
\<close>

fun dedupe_loop ::
  "ConnectedClient_ptr list \<Rightarrow> (string \<rightharpoonup> unit) \<Rightarrow> ConnectedClient_ptr list
    \<Rightarrow> ConnectedClient_ptr list outcome" where
  "dedupe_loop [] seen out = Returned out"
| "dedupe_loop (item # rest) seen out =
     (case item of
        None \<Rightarrow> Panicked
      | Some cl \<Rightarrow>
          (case seen (MAC cl) of
             None \<Rightarrow> dedupe_loop rest (seen(MAC cl \<mapsto> ())) (out @ [item])
           | Some _ \<Rightarrow> dedupe_loop rest seen out))"

definition dedupeClients :: "ConnectedClient_ptr list \<Rightarrow> ConnectedClient_ptr list outcome" where
  "dedupeClients inp = dedupe_loop inp Map.empty []"

section \<open>Session, requests and the environment\<close>

subsection \<open>Requests, responses and the log\<close>

text \<open>
  The body of the login request is \<open>json.Marshal\<close> of a \<open>map[string]string\<close>, which
  cannot fail and writes the keys in sorted order: the model keeps the pairs.
\<close>

datatype body = NoBody | JSONBody "(string \<times> string) list"

record request =
  Method :: string
  URL :: string
  Header :: "(string \<times> string) list"
  Cookie :: "(string \<times> string) list"
  Body :: body

datatype http_result =
    NetError string
  | Response int string string

datatype zap_field = zap_Int string int | zap_String string string

datatype log_entry = Warn string "zap_field list" | Info string "zap_field list"

text \<open>
  The environment is what the package calls and does not define.
  \<^item> \<open>http_Do\<close>: the answer of \<open>c.http.Do\<close> to the last request of a history of
    requests, a transport error or a response with its status code, status line and body.
    Quantifying over it covers every controller and every network.
  \<^item> \<open>Jar_Cookies\<close>: the cookies that the jar holds for a URL after a history. The
    URL is the base URL as a string; the request of which it is the prefix has been
    parsed by then.
  \<^item> \<open>Decode_info\<close>, \<open>Decode_auth\<close>, \<open>Decode_clients\<close>: \<open>json.Decoder.Decode\<close>
    into a target of each of the three types. It takes the target as it is before the
    call, since a field that the body omits keeps its value, and gives \<open>None\<close> for a
    body that does not decode.
  \<^item> \<open>NewRequest_error\<close>: the error of \<open>http.NewRequest\<close> on a URL that does not parse.
  \<^item> \<open>JoinPath_other\<close>: \<open>url.JoinPath\<close> outside the plain URLs, see below.
\<close>

record infoResult =
  info_ErrorCode :: int
  info_Msg :: string
  ControllerID :: string

record authResult =
  auth_ErrorCode :: int
  auth_Msg :: string
  RoleType :: int
  Token :: string

record env =
  http_Do :: "request list \<Rightarrow> http_result"
  Jar_Cookies :: "request list \<Rightarrow> string \<Rightarrow> (string \<times> string) list"
  Decode_info :: "string \<Rightarrow> infoResult \<Rightarrow> infoResult option"
  Decode_auth :: "string \<Rightarrow> authResult \<Rightarrow> authResult option"
  Decode_clients :: "string \<Rightarrow> ClientsResult \<Rightarrow> ClientsResult option"
  NewRequest_error :: "string \<Rightarrow> string option"
  JoinPath_other :: "string \<Rightarrow> string \<Rightarrow> string + string"

text \<open>
  \<open>url.JoinPath base elem\<close> parses \<open>base\<close>, joins \<open>elem\<close> onto its path with
  \<open>path.Join\<close>, keeps a final \<open>/\<close> of \<open>elem\<close>, and prints the URL. On a plain URL
  and an element that is \<open>/\<close> or a plain segment nothing is escaped or cleaned away, and
  the result is the URL without its final \<open>/\<close>, then \<open>/\<close>, then the segment. Every
  other case is left to the environment.
\<close>

definition url_JoinPath :: "env \<Rightarrow> string \<Rightarrow> string \<Rightarrow> error + string" where
  "url_JoinPath E base elem =
     (if plain_url base \<and> elem = ''/'' then Inr (strings_TrimSuffix base ''/'' @ ''/'')
      else if plain_url base \<and> plain_segment elem
        then Inr (strings_TrimSuffix base ''/'' @ ''/'' @ elem)
      else (case JoinPath_other E base elem of
              Inl msg \<Rightarrow> Inl (URLError msg)
            | Inr joined \<Rightarrow> Inr joined))"

definition http_NewRequest :: "env \<Rightarrow> string \<Rightarrow> string \<Rightarrow> body \<Rightarrow> error + request" where
  "http_NewRequest E method url b =
     (case NewRequest_error E url of
        Some msg \<Rightarrow> Inl (URLError msg)
      | None \<Rightarrow> Inr \<lparr>Method = method, URL = url, Header = [], Cookie = [], Body = b\<rparr>)"

subsection \<open>The client\<close>

text \<open>
  \<open>logger\<close> is the list of entries written so far and \<open>http\<close> the list of requests
  handed to \<open>c.http.Do\<close> so far. The mutex \<open>mu\<close> guards single field accesses of a
  sequential run and has no counterpart. The accessor \<open>Token\<close> is \<open>Token_of\<close>, since
  \<open>Token\<close> is also the field of the login result.
\<close>

record Client =
  logger :: "log_entry list"
  http :: "request list"
  configPath :: string
  username :: string
  password :: string
  baseURL :: string
  token :: string

definition Token_of :: "Client \<Rightarrow> string" where
  "Token_of c = token c"

definition SetToken :: "string \<Rightarrow> Client \<Rightarrow> Client" where
  "SetToken t c = c\<lparr>token := t\<rparr>"

definition BaseURL :: "Client \<Rightarrow> string" where
  "BaseURL c = baseURL c"

definition SetBaseURL :: "env \<Rightarrow> string \<Rightarrow> Client \<Rightarrow> error option \<times> Client" where
  "SetBaseURL E path c =
     (case url_JoinPath E (configPath c) path of
        Inl err \<Rightarrow> (Some err, c)
      | Inr newPath \<Rightarrow> (None, c\<lparr>baseURL := strings_TrimSuffix newPath ''/''\<rparr>))"

section \<open>The request executor\<close>

text \<open>
  \<open>doJSON\<close> sets the five headers, adds the cookies of the jar for the base URL, sends
  the request and classifies the answer. The target is returned next to the error; where
  \<open>Decode\<close> fails the callers return the error and never read the target.
\<close>

definition doJSON ::
  "env \<Rightarrow> (string \<Rightarrow> 'a \<Rightarrow> 'a option) \<Rightarrow> request \<Rightarrow> 'a \<Rightarrow> Client
    \<Rightarrow> error option \<times> 'a \<times> Client" where
  "doJSON E decode req0 target c =
     (let req = req0\<lparr>
            Header :=
              [(''Accept'', ''application/json, text/javascript, */*; q=0.01''),
               (''Accept-Language'', ''en-US,en;q=0.5''),
               (''Content-Type'', ''application/json; charset=UTF-8''),
               (''X-Requested-With'', ''XMLHttpRequest''),
               (''Csrf-Token'', Token_of c)],
            Cookie := Cookie req0 @ Jar_Cookies E (http c) (BaseURL c)\<rparr>;
          c' = c\<lparr>http := http c @ [req]\<rparr>
      in case http_Do E (http c @ [req]) of
           NetError msg \<Rightarrow> (Some (TransportError msg), target, c')
         | Response StatusCode Status ResponseBody \<Rightarrow>
             if StatusCode = 401 then (Some errTokenExpired, target, c')
             else if StatusCode \<noteq> 200 then (Some (HTTPStatusError (URL req) Status), target, c')
             else (case decode ResponseBody target of
                     None \<Rightarrow> (Some DecodeError, target, c')
                   | Some decoded \<Rightarrow> (None, decoded, c')))"

definition postJSON ::
  "env \<Rightarrow> (string \<Rightarrow> 'a \<Rightarrow> 'a option) \<Rightarrow> string \<Rightarrow> body \<Rightarrow> 'a \<Rightarrow> Client
    \<Rightarrow> error option \<times> 'a \<times> Client" where
  "postJSON E decode url b target c =
     (case http_NewRequest E ''POST'' (BaseURL c @ url) b of
        Inl err \<Rightarrow> (Some err, target, c)
      | Inr req \<Rightarrow> doJSON E decode req target c)"

definition getJSON ::
  "env \<Rightarrow> (string \<Rightarrow> 'a \<Rightarrow> 'a option) \<Rightarrow> string \<Rightarrow> 'a \<Rightarrow> Client
    \<Rightarrow> error option \<times> 'a \<times> Client" where
  "getJSON E decode url target c =
     (case http_NewRequest E ''GET'' (BaseURL c @ url) NoBody of
        Inl err \<Rightarrow> (Some err, target, c)
      | Inr req \<Rightarrow> doJSON E decode req target c)"

section \<open>The authenticator\<close>

definition infoResult_zero :: infoResult where
  "infoResult_zero = \<lparr>info_ErrorCode = 0, info_Msg = [], ControllerID = []\<rparr>"

definition authResult_zero :: authResult where
  "authResult_zero = \<lparr>auth_ErrorCode = 0, auth_Msg = [], RoleType = 0, Token = []\<rparr>"

definition authenticate :: "env \<Rightarrow> Client \<Rightarrow> error option \<times> Client" where
  "authenticate E c0 =
     (case SetBaseURL E ''/'' (SetToken [] c0) of
        (Some err, c1) \<Rightarrow> (Some err, c1)
      | (None, c1) \<Rightarrow>
     (case getJSON E (Decode_info E) ''/api/info'' infoResult_zero c1 of
        (Some err, ir, c2) \<Rightarrow> (Some err, c2)
      | (None, ir, c2) \<Rightarrow>
     if ControllerID ir = [] then (Some (MissingControllerID (info_ErrorCode ir) (info_Msg ir)), c2)
     else
     (case SetBaseURL E (ControllerID ir) c2 of
        (Some err, c3) \<Rightarrow> (Some err, c3)
      | (None, c3) \<Rightarrow>
     (case postJSON E (Decode_auth E) ''/api/v2/login''
             (JSONBody [(''password'', password c3), (''username'', username c3)])
             authResult_zero c3 of
        (Some err, ar, c4) \<Rightarrow> (Some err, c4)
      | (None, ar, c4) \<Rightarrow>
     if Token ar = [] then (Some (AuthFailed (auth_ErrorCode ar) (auth_Msg ar)), c4)
     else
       (let c5 = SetToken (Token ar) c4
        in (None, c5\<lparr>logger := logger c5 @
              map (\<lambda>(name, val). Info ''Cookie after login''
                                  [zap_String ''name'' name, zap_String ''value'' val])
                (Jar_Cookies E (http c5) (BaseURL c5))\<rparr>))))))"

section \<open>The retry-once policy\<close>

text \<open>
  The wrapped operation is a closure: it reads and writes the client and the variables
  it captured, whose values are \<open>v\<close>. The label \<open>retry\<close> and the flag \<open>retried\<close>
  become a recursion on the flag.
\<close>

function retryOnce_from ::
  "env \<Rightarrow> bool \<Rightarrow> ('v \<Rightarrow> Client \<Rightarrow> error option \<times> 'v \<times> Client) \<Rightarrow> 'v \<Rightarrow> Client
    \<Rightarrow> error option \<times> 'v \<times> Client" where
  "retryOnce_from E retried try v c =
     (case try v c of
        (err, v1, c1) \<Rightarrow>
          if errors_Is err errTokenExpired \<and> \<not> retried
          then (case authenticate E c1 of
                  (Some err', c2) \<Rightarrow> (Some err', v1, c2)
                | (None, c2) \<Rightarrow> retryOnce_from E True try v1 c2)
          else (err, v1, c1))"
  by pat_completeness auto
termination
  by (relation "measure (\<lambda>(E, retried, try, v, c). if retried then 0 else 1)") auto

definition retryOnce ::
  "env \<Rightarrow> ('v \<Rightarrow> Client \<Rightarrow> error option \<times> 'v \<times> Client) \<Rightarrow> 'v \<Rightarrow> Client
    \<Rightarrow> error option \<times> 'v \<times> Client" where
  "retryOnce E try v c = retryOnce_from E False try v c"

section \<open>The paginated fetch\<close>

text \<open>
  The closure \<open>get\<close> of \<open>ConnectedClients\<close>; it captures the envelope \<open>r\<close> of the
  current iteration, the site and the page number. \<open>clients_path\<close> is its
  \<open>fmt.Sprintf\<close>.
\<close>

definition clients_path :: "string \<Rightarrow> nat \<Rightarrow> string" where
  "clients_path site currentPage =
     ''/api/v2/sites/'' @ url_QueryEscape site @ ''/clients?currentPage='' @
     itoa currentPage @ ''&currentPageSize=100&filters.active=true''"

definition get ::
  "env \<Rightarrow> string \<Rightarrow> nat \<Rightarrow> ClientsResult \<Rightarrow> Client \<Rightarrow> error option \<times> ClientsResult \<times> Client" where
  "get E site currentPage r c =
     (let path = clients_path site currentPage
      in case getJSON E (Decode_clients E) path r c of
           (Some err, r', c') \<Rightarrow> (Some err, r', c')
         | (None, r', c') \<Rightarrow>
             if ErrorCode r' = - 1200 then (Some errTokenExpired, r', c')
             else if ErrorCode r' \<noteq> 0
               then (Some (ApplicationError (ErrorCode r') (Msg r')), r', c')
             else (None, r', c'))"

text \<open>
  The \<open>for\<close> loop leaves either by \<open>return nil, err\<close> or, after a \<open>break\<close> or when
  its condition fails, with the page counter and the accumulator.
\<close>

datatype loop_exit =
    LoopReturn error
  | LoopEnd nat "ConnectedClient_ptr list"

function ConnectedClients_loop ::
  "env \<Rightarrow> string \<Rightarrow> nat \<Rightarrow> ConnectedClient_ptr list \<Rightarrow> Client \<Rightarrow> loop_exit \<times> Client" where
  "ConnectedClients_loop E site currentPage clients c =
     (if currentPage \<le> maxPages
      then (case retryOnce E (get E site currentPage) ClientsResult_zero c of
              (Some err, r, c') \<Rightarrow> (LoopReturn err, c')
            | (None, r, c') \<Rightarrow>
                (let clients' = clients @ Data (Result r)
                 in if int (length clients') \<ge> TotalRows (Result r) \<or> length (Data (Result r)) = 0
                    then (LoopEnd currentPage clients', c')
                    else ConnectedClients_loop E site (currentPage + 1) clients' c'))
      else (LoopEnd currentPage clients, c))"
  by pat_completeness auto
termination
  by (relation "measure (\<lambda>(E, site, currentPage, clients, c). Suc maxPages - currentPage)") auto

text \<open>
  The result is the pair of the Go function, a slice that is \<open>None\<close> when it is
  \<open>nil\<close> and an error, unless \<open>dedupeClients\<close> panics.
\<close>

definition ConnectedClients ::
  "env \<Rightarrow> string \<Rightarrow> Client
    \<Rightarrow> (ConnectedClient_ptr list option \<times> error option) outcome \<times> Client" where
  "ConnectedClients E site c =
     (case ConnectedClients_loop E site 1 [] c of
        (LoopReturn err, c') \<Rightarrow> (Returned (None, Some err), c')
      | (LoopEnd currentPage clients, c') \<Rightarrow>
          (let c'' = (if currentPage > maxPages
                      then c'\<lparr>logger := logger c' @
                             [Warn ''stopped fetching clients after too many pages''
                                [zap_Int ''pages'' (int maxPages),
                                 zap_Int ''clients'' (int (length clients))]]\<rparr>
                      else c')
           in case dedupeClients clients of
                Panicked \<Rightarrow> (Panicked, c'')
              | Returned out \<Rightarrow> (Returned (Some out, None), c'')))"

section \<open>Notions used in the statements\<close>

subsection \<open>First occurrences\<close>

text \<open>
  \<open>keep_first S cs\<close> keeps the records of \<open>cs\<close> whose MAC is neither in \<open>S\<close> nor
  carried by an earlier record of \<open>cs\<close>; \<open>first_occurrences cs\<close> lists the positions
  of \<open>cs\<close> whose MAC does not occur at an earlier position.
\<close>

fun keep_first :: "string set \<Rightarrow> ConnectedClient list \<Rightarrow> ConnectedClient list" where
  "keep_first S [] = []"
| "keep_first S (x # xs) =
     (if MAC x \<in> S then keep_first S xs else x # keep_first (insert (MAC x) S) xs)"

definition unseen_at :: "string set \<Rightarrow> ConnectedClient list \<Rightarrow> nat \<Rightarrow> bool" where
  "unseen_at S cs i = (MAC (cs ! i) \<notin> S \<union> MAC ` set (take i cs))"

definition first_occurrences :: "ConnectedClient list \<Rightarrow> nat list" where
  "first_occurrences cs =
     filter (\<lambda>i. MAC (cs ! i) \<notin> MAC ` set (take i cs)) [0..<length cs]"

subsection \<open>Counting the invocations of a closure\<close>

text \<open>
  \<open>counted try\<close> is \<open>try\<close> with one more captured variable, which it increments at
  every invocation.
\<close>

definition counted ::
  "('v \<Rightarrow> Client \<Rightarrow> error option \<times> 'v \<times> Client) \<Rightarrow> nat \<times> 'v \<Rightarrow> Client
    \<Rightarrow> error option \<times> (nat \<times> 'v) \<times> Client" where
  "counted try = (\<lambda>(n, v) c. case try v c of (err, v', c') \<Rightarrow> (err, (Suc n, v'), c'))"

subsection \<open>Sequences of pages\<close>

text \<open>
  \<open>fetchPage\<close> is what one iteration of the loop does to obtain its envelope.
  \<open>fetches E site page c rs = Some c'\<close> says that the fetches of the pages \<open>page\<close>,
  \<open>page + 1\<close>, ... from the state \<open>c\<close> succeed one after the other, return the
  envelopes \<open>rs\<close> in this order, and leave the state \<open>c'\<close>.
  \<open>accumulated rs\<close> is the accumulator after the envelopes \<open>rs\<close>, and
  \<open>continues n rs\<close> says that, from an accumulator of length \<open>n\<close>, none of the
  envelopes \<open>rs\<close> ends the loop: none brings the length to its \<open>totalRows\<close> and none
  is empty.
\<close>

definition fetchPage ::
  "env \<Rightarrow> string \<Rightarrow> nat \<Rightarrow> Client \<Rightarrow> error option \<times> ClientsResult \<times> Client" where
  "fetchPage E site page c = retryOnce E (get E site page) ClientsResult_zero c"

fun fetches :: "env \<Rightarrow> string \<Rightarrow> nat \<Rightarrow> Client \<Rightarrow> ClientsResult list \<Rightarrow> Client option" where
  "fetches E site page c [] = Some c"
| "fetches E site page c (r # rs) =
     (case fetchPage E site page c of
        (Some err, r', c') \<Rightarrow> None
      | (None, r', c') \<Rightarrow> if r' = r then fetches E site (Suc page) c' rs else None)"

definition accumulated :: "ClientsResult list \<Rightarrow> ConnectedClient_ptr list" where
  "accumulated rs = concat (map (\<lambda>r. Data (Result r)) rs)"

fun continues :: "nat \<Rightarrow> ClientsResult list \<Rightarrow> bool" where
  "continues n [] = True"
| "continues n (r # rs) =
     (int (n + length (Data (Result r))) < TotalRows (Result r) \<and> Data (Result r) \<noteq> [] \<and>
      continues (n + length (Data (Result r))) rs)"

subsection \<open>Reading a request\<close>

text \<open>\<open>req.Header.Get\<close> on a request that the executor has built.\<close>

definition Header_Get :: "request \<Rightarrow> string \<Rightarrow> string option" where
  "Header_Get q key = map_of (Header q) key"

subsection \<open>Percent-encoding\<close>

text \<open>
  The percent-encoding of RFC 3986 for a path segment, as the specification asks for the
  site: an unreserved character stands for itself, every other byte is \<open>%\<close> and two
  hexadecimal digits. \<open>percent_decode\<close> reads a segment back, as a server does;
  it leaves a \<open>+\<close> as it is.
\<close>

fun percent_encode :: "string \<Rightarrow> string" where
  "percent_encode [] = []"
| "percent_encode (c # s) =
     (if unreserved c then c # percent_encode s
      else CHR ''%'' # upperhex (of_char c div 16) # upperhex (of_char c mod 16) # percent_encode s)"

definition hexval :: "char \<Rightarrow> nat option" where
  "hexval c =
     (let n = (of_char c :: nat)
      in if 48 \<le> n \<and> n \<le> 57 then Some (n - 48)
         else if 65 \<le> n \<and> n \<le> 70 then Some (n - 55)
         else if 97 \<le> n \<and> n \<le> 102 then Some (n - 87)
         else None)"

fun percent_decode :: "string \<Rightarrow> string option" where
  "percent_decode [] = Some []"
| "percent_decode (c # s) =
     (if c = CHR ''%''
      then (case s of
              h # l # rest \<Rightarrow>
                (case (hexval h, hexval l, percent_decode rest) of
                   (Some x, Some y, Some t) \<Rightarrow> Some (char_of (16 * x + y) # t)
                 | _ \<Rightarrow> None)
            | _ \<Rightarrow> None)
      else map_option ((#) c) (percent_decode s))"

subsection \<open>A controller for the examples\<close>

text \<open>
  A small controller, used where a statement is instantiated. It serves \<open>/api/info\<close>
  and the login, which gives the token \<open>T1\<close>, and it answers the error code
  \<open>-1200\<close> to a request for a site that does not carry \<open>T1\<close>. The site \<open>Default\<close> has three rows on two pages, two of them with
  the same MAC; \<open>short\<close> announces three rows and has an empty second page;
  \<open>flaky\<close> fails on its second page; \<open>denied\<close> answers the error code \<open>-1005\<close>;
  \<open>repeat\<close> announces five rows, serves three on its first page, the third with the
  MAC of the first, and has an empty second page;
  \<open>endless\<close> announces a thousand rows and serves one on every page.
\<close>

definition demo_record :: "string \<Rightarrow> string \<Rightarrow> ConnectedClient" where
  "demo_record mac ip =
     \<lparr>Active = True, Activity = 0, ApMAC = [], ApName = [], AuthStatus = 0, Channel = 0,
      ConnectDevType = [], ConnectType = 0, DeviceType = [], DownPacket = 0, Guest = False,
      HostName = [], IP = ip, LastSeen = 0, MAC = mac, Manager = False, Name = [],
      PowerSave = False, RadioID = 0, RSSI = 0, RxRate = 0, SignalLevel = 0, SignalRank = 0,
      SSID = [], TrafficDown = 0, TrafficUp = 0, TxRate = 0, UpPacket = 0, Uptime = 0,
      WifiMode = 0, Wireless = True\<rparr>"

definition demo_page :: "ConnectedClient list \<Rightarrow> int \<Rightarrow> ClientsResult" where
  "demo_page records rows =
     \<lparr>ErrorCode = 0, Msg = [],
      Result = \<lparr>CurrentPage = 0, CurrentSize = 0, TotalRows = rows, Data = map Some records\<rparr>\<rparr>"

definition page_first :: ClientsResult where
  "page_first = demo_page [demo_record ''AA-01'' ''10.0.0.1'', demo_record ''AA-02'' ''10.0.0.2''] 3"

definition page_second :: ClientsResult where
  "page_second = demo_page [demo_record ''AA-01'' ''10.0.0.9''] 3"

definition page_empty :: ClientsResult where
  "page_empty = demo_page [] 3"

definition page_repeat :: ClientsResult where
  "page_repeat =
     demo_page [demo_record ''AA-01'' ''10.0.0.1'', demo_record ''AA-02'' ''10.0.0.2'',
                demo_record ''AA-01'' ''10.0.0.9''] 5"

definition page_nothing :: ClientsResult where
  "page_nothing = demo_page [] 5"

definition page_more :: ClientsResult where
  "page_more = demo_page [demo_record ''AA-03'' ''10.0.0.3''] 1000"

definition demo_base :: string where
  "demo_base = ''https://omada.local:8043/abc123''"

definition demo_request :: "string \<Rightarrow> string \<Rightarrow> string \<Rightarrow> body \<Rightarrow> request" where
  "demo_request method url tok b =
     \<lparr>Method = method, URL = url,
      Header =
        [(''Accept'', ''application/json, text/javascript, */*; q=0.01''),
         (''Accept-Language'', ''en-US,en;q=0.5''),
         (''Content-Type'', ''application/json; charset=UTF-8''),
         (''X-Requested-With'', ''XMLHttpRequest''),
         (''Csrf-Token'', tok)],
      Cookie = [], Body = b\<rparr>"

definition clients_request :: "string \<Rightarrow> nat \<Rightarrow> string \<Rightarrow> request" where
  "clients_request site page tok = demo_request ''GET'' (demo_base @ clients_path site page) tok NoBody"

definition info_request :: request where
  "info_request = demo_request ''GET'' ''https://omada.local:8043/api/info'' [] NoBody"

definition login_request :: request where
  "login_request =
     demo_request ''POST'' (demo_base @ ''/api/v2/login'') []
       (JSONBody [(''password'', ''secret''), (''username'', ''admin'')])"

definition demo_http_Do :: "request list \<Rightarrow> http_result" where
  "demo_http_Do h =
     (if h = [] then NetError ''no request''
      else let q = last h; at = strings_HasSuffix (URL q) in
        if take 52 (URL q) = demo_base @ ''/api/v2/sites/endless''
          then (if map_of (Header q) ''Csrf-Token'' = Some ''T1''
                then Response 200 ''200 OK'' ''more'' else Response 200 ''200 OK'' ''expired'')
        else if at ''/api/info'' then Response 200 ''200 OK'' ''info''
        else if at ''/api/v2/login'' then Response 200 ''200 OK'' ''login''
        else if map_of (Header q) ''Csrf-Token'' \<noteq> Some ''T1''
          then Response 200 ''200 OK'' ''expired''
        else if at (clients_path ''Default'' 1) then Response 200 ''200 OK'' ''first''
        else if at (clients_path ''Default'' 2) then Response 200 ''200 OK'' ''second''
        else if at (clients_path ''short'' 1) then Response 200 ''200 OK'' ''first''
        else if at (clients_path ''short'' 2) then Response 200 ''200 OK'' ''empty''
        else if at (clients_path ''flaky'' 1) then Response 200 ''200 OK'' ''first''
        else if at (clients_path ''flaky'' 2) then Response 500 ''500 Internal Server Error'' []
        else if at (clients_path ''denied'' 1) then Response 200 ''200 OK'' ''denied''
        else if at (clients_path ''repeat'' 1) then Response 200 ''200 OK'' ''repeat''
        else if at (clients_path ''repeat'' 2) then Response 200 ''200 OK'' ''nothing''
        else Response 404 ''404 Not Found'' [])"

definition demo_Decode_clients :: "string \<Rightarrow> ClientsResult \<Rightarrow> ClientsResult option" where
  "demo_Decode_clients b r =
     (if b = ''first'' then Some page_first
      else if b = ''second'' then Some page_second
      else if b = ''empty'' then Some page_empty
      else if b = ''more'' then Some page_more
      else if b = ''expired'' then Some (r\<lparr>ErrorCode := - 1200, Msg := ''token expired''\<rparr>)
      else if b = ''denied'' then Some (r\<lparr>ErrorCode := - 1005, Msg := ''denied''\<rparr>)
      else if b = ''repeat'' then Some page_repeat
      else if b = ''nothing'' then Some page_nothing
      else None)"

definition demo_env :: env where
  "demo_env =
     \<lparr>http_Do = demo_http_Do,
      Jar_Cookies = (\<lambda>h u. []),
      Decode_info = (\<lambda>b t. if b = ''info'' then Some (t\<lparr>ControllerID := ''abc123''\<rparr>) else None),
      Decode_auth = (\<lambda>b t. if b = ''login'' then Some (t\<lparr>Token := ''T1''\<rparr>) else None),
      Decode_clients = demo_Decode_clients,
      NewRequest_error = (\<lambda>u. None),
      JoinPath_other = (\<lambda>b e. Inl ''not a plain URL'')\<rparr>"

text \<open>
  The same controller after it has locked the account out: it still serves
  \<open>/api/info\<close> and the login, and answers 401 to every other request, with a body
  that would decode.
\<close>

definition locked_http_Do :: "request list \<Rightarrow> http_result" where
  "locked_http_Do h =
     (if h = [] then NetError ''no request''
      else let q = last h; at = strings_HasSuffix (URL q) in
        if at ''/api/info'' then Response 200 ''200 OK'' ''info''
        else if at ''/api/v2/login'' then Response 200 ''200 OK'' ''login''
        else Response 401 ''401 Unauthorized'' ''first'')"

definition locked_env :: env where
  "locked_env = demo_env\<lparr>http_Do := locked_http_Do\<rparr>"

definition demo_client :: "string \<Rightarrow> request list \<Rightarrow> Client" where
  "demo_client tok h =
     \<lparr>logger = [], http = h, configPath = ''https://omada.local:8043/'', username = ''admin'',
      password = ''secret'', baseURL = demo_base, token = tok\<rparr>"

section \<open>Properties of the deduplication\<close>

lemma dedupe_loop_records:
  "dedupe_loop (map Some cs) seen out = Returned (out @ map Some (keep_first (dom seen) cs))"
proof (induction cs arbitrary: seen out)
  case Nil
  then show ?case by simp
next
  case (Cons x xs)
  show ?case
  proof (cases "seen (MAC x)")
    case None
    then have fresh: "MAC x \<notin> dom seen" by auto
    have "dom (seen(MAC x \<mapsto> ())) = insert (MAC x) (dom seen)" by simp
    with None fresh Cons [of "seen(MAC x \<mapsto> ())" "out @ [Some x]"] show ?thesis
      by (simp del: fun_upd_apply)
  next
    case (Some u)
    then have "MAC x \<in> dom seen" by auto
    with Some Cons show ?thesis by simp
  qed
qed

lemma dedupeClients_records:
  "dedupeClients (map Some cs) = Returned (map Some (keep_first {} cs))"
  by (simp add: dedupeClients_def dedupe_loop_records)

lemma dedupe_loop_nil:
  "None \<in> set inp \<Longrightarrow> dedupe_loop inp seen out = Panicked"
  by (induction inp arbitrary: seen out) (auto split: option.splits)

lemma keep_first_keys: "MAC ` set (keep_first S cs) = MAC ` set cs - S"
  by (induction cs arbitrary: S) auto

lemma keep_first_distinct: "distinct (map MAC (keep_first S cs))"
  by (induction cs arbitrary: S) (auto simp: keep_first_keys)

lemma keep_first_fixed:
  "distinct (map MAC cs) \<Longrightarrow> MAC ` set cs \<inter> S = {} \<Longrightarrow> keep_first S cs = cs"
  by (induction cs arbitrary: S) auto

lemma keep_first_idem: "keep_first S (keep_first S cs) = keep_first S cs"
  by (rule keep_first_fixed) (auto simp: keep_first_distinct keep_first_keys)

lemma unseen_at_0: "unseen_at S (x # xs) 0 = (MAC x \<notin> S)"
  by (simp add: unseen_at_def)

lemma unseen_at_Suc: "unseen_at S (x # xs) (Suc i) = unseen_at (insert (MAC x) S) xs i"
  by (simp add: unseen_at_def)

lemma keep_first_unseen:
  "keep_first S cs = map ((!) cs) (filter (unseen_at S cs) [0..<length cs])"
proof (induction cs arbitrary: S)
  case Nil
  then show ?case by simp
next
  case (Cons x xs)
  have upt: "[0..<length (x # xs)] = 0 # map Suc [0..<length xs]"
    by (simp add: upt_conv_Cons map_Suc_upt del: upt_Suc)
  have tail: "map ((!) (x # xs)) (filter (unseen_at S (x # xs)) (map Suc [0..<length xs])) =
      keep_first (insert (MAC x) S) xs"
    by (simp add: Cons filter_map comp_def unseen_at_Suc)
  show ?case
  proof (cases "MAC x \<in> S")
    case True
    then have "insert (MAC x) S = S" by auto
    with True tail show ?thesis
      unfolding upt by (simp add: unseen_at_0)
  next
    case False
    with tail show ?thesis
      unfolding upt by (simp add: unseen_at_0)
  qed
qed

lemma keep_first_positions:
  "keep_first {} cs = map ((!) cs) (first_occurrences cs)"
proof -
  have "unseen_at {} cs = (\<lambda>i. MAC (cs ! i) \<notin> MAC ` set (take i cs))"
    by (rule ext) (simp add: unseen_at_def)
  then show ?thesis
    by (simp add: keep_first_unseen [of "{}" cs] first_occurrences_def)
qed

text \<open>
  C2. On every sequence \<open>cs\<close> of client records (pointers to them, none nil)
  \<open>dedupeClients\<close> returns, and what it returns is the records of \<open>cs\<close> at the
  positions where a MAC occurs for the first time, in the order of \<open>cs\<close>. So every MAC
  of the input occurs in the output, exactly once; and \<open>dedupeClients\<close> applied to
  its output returns it unchanged.
\<close>

theorem dedupeClients_first_occurrences:
  "\<exists>out. dedupeClients (map Some cs) = Returned (map Some out)
     \<and> out = map ((!) cs) (first_occurrences cs)
     \<and> distinct (map MAC out)
     \<and> set (map MAC out) = set (map MAC cs)
     \<and> dedupeClients (map Some out) = Returned (map Some out)"
proof -
  let ?out = "keep_first {} cs"
  have run: "dedupeClients (map Some cs) = Returned (map Some ?out)"
    by (rule dedupeClients_records)
  have pos: "?out = map ((!) cs) (first_occurrences cs)"
    by (rule keep_first_positions)
  have keys: "set (map MAC ?out) = set (map MAC cs)"
    by (simp add: keep_first_keys)
  have idem: "dedupeClients (map Some ?out) = Returned (map Some ?out)"
    by (simp add: dedupeClients_records keep_first_idem)
  from run pos keys idem keep_first_distinct show ?thesis by blast
qed

section \<open>Properties of the retry-once policy\<close>

declare retryOnce_from.simps [simp del] ConnectedClients_loop.simps [simp del]

lemma retryOnce_from_retried: "retryOnce_from E True try v c = try v c"
  by (simp add: retryOnce_from.simps [of E True] split: prod.splits)

lemma retryOnce_unfold:
  "retryOnce E try v c =
     (case try v c of
        (err, v1, c1) \<Rightarrow>
          if err = Some errTokenExpired
          then (case authenticate E c1 of
                  (Some err', c2) \<Rightarrow> (Some err', v1, c2)
                | (None, c2) \<Rightarrow> try v1 c2)
          else (err, v1, c1))"
  by (simp add: retryOnce_def retryOnce_from.simps [of E False] retryOnce_from_retried
      errors_Is_def split: prod.splits option.splits)

section \<open>Properties of the paginated fetch\<close>

lemma accumulated_Cons: "accumulated (r # rs) = Data (Result r) @ accumulated rs"
  by (simp add: accumulated_def)

lemma loop_stops:
  assumes "fetches E site page c (ps @ [r]) = Some c'"
    and "page + length ps \<le> maxPages"
    and "continues (length acc) ps"
    and "int (length (acc @ accumulated (ps @ [r]))) \<ge> TotalRows (Result r) \<or> Data (Result r) = []"
  shows "ConnectedClients_loop E site page acc c =
           (LoopEnd (page + length ps) (acc @ accumulated (ps @ [r])), c')"
  using assms
proof (induction ps arbitrary: page acc c)
  case Nil
  then show ?case
    by (simp add: ConnectedClients_loop.simps [of E site page] fetchPage_def accumulated_def
        split: prod.splits option.splits if_splits)
next
  case (Cons p ps)
  from Cons.prems(1) obtain c1 where
    step: "fetchPage E site page c = (None, p, c1)" and
    rest: "fetches E site (Suc page) c1 (ps @ [r]) = Some c'"
    by (auto split: prod.splits option.splits if_splits)
  from Cons.prems(3) have
    go: "int (length acc + length (Data (Result p))) < TotalRows (Result p)" "Data (Result p) \<noteq> []"
    and cont: "continues (length (acc @ Data (Result p))) ps"
    by simp_all
  from Cons.prems(2) have bound: "Suc page + length ps \<le> maxPages" "page \<le> maxPages" by simp_all
  from Cons.prems(4) have
    stop: "int (length ((acc @ Data (Result p)) @ accumulated (ps @ [r]))) \<ge> TotalRows (Result r)
            \<or> Data (Result r) = []"
    by (simp add: accumulated_Cons)
  have "ConnectedClients_loop E site page acc c =
      ConnectedClients_loop E site (Suc page) (acc @ Data (Result p)) c1"
    using step go bound(2)
    by (simp add: ConnectedClients_loop.simps [of E site page] fetchPage_def)
  also have "\<dots> = (LoopEnd (Suc page + length ps)
      ((acc @ Data (Result p)) @ accumulated (ps @ [r])), c')"
    by (rule Cons.IH [OF rest bound(1) cont stop])
  finally show ?case by (simp add: accumulated_Cons)
qed


lemma loop_fails:
  assumes "fetches E site page c ps = Some c1"
    and "page + length ps \<le> maxPages"
    and "continues (length acc) ps"
    and "fetchPage E site (page + length ps) c1 = (Some err, r, c')"
  shows "ConnectedClients_loop E site page acc c = (LoopReturn err, c')"
  using assms
proof (induction ps arbitrary: page acc c)
  case Nil
  then show ?case
    by (simp add: ConnectedClients_loop.simps [of E site page] fetchPage_def)
next
  case (Cons p ps)
  from Cons.prems(1) obtain c2 where
    step: "fetchPage E site page c = (None, p, c2)" and
    rest: "fetches E site (Suc page) c2 ps = Some c1"
    by (auto split: prod.splits option.splits if_splits)
  from Cons.prems(3) have
    go: "int (length acc + length (Data (Result p))) < TotalRows (Result p)" "Data (Result p) \<noteq> []"
    and cont: "continues (length (acc @ Data (Result p))) ps"
    by simp_all
  from Cons.prems(2) have bound: "Suc page + length ps \<le> maxPages" "page \<le> maxPages" by simp_all
  from Cons.prems(4) have fail: "fetchPage E site (Suc page + length ps) c1 = (Some err, r, c')"
    by simp
  have "ConnectedClients_loop E site page acc c =
      ConnectedClients_loop E site (Suc page) (acc @ Data (Result p)) c2"
    using step go bound(2)
    by (simp add: ConnectedClients_loop.simps [of E site page] fetchPage_def)
  also have "\<dots> = (LoopReturn err, c')"
    by (rule Cons.IH [OF rest bound(1) cont fail])
  finally show ?case .
qed


section \<open>The controller of the examples, step by step\<close>

lemmas demo_defs = demo_env_def demo_client_def demo_http_Do_def demo_Decode_clients_def
  demo_base_def demo_request_def clients_request_def info_request_def login_request_def

lemmas exec_defs = clients_path_def get_def getJSON_def postJSON_def
  doJSON_def http_NewRequest_def BaseURL_def Token_of_def
  SetToken_def SetBaseURL_def url_JoinPath_def authenticate_def url_QueryEscape_def
  shouldEscape_def unreserved_def alphanum_def upperhex_def digit_def
  strings_TrimSuffix_def strings_HasSuffix_def infoResult_zero_def authResult_zero_def

lemmas plain_defs = plain_url_def lower_def hostchar_def alphanum_def plain_port_def
  isdigit_def plain_segment_def unreserved_def

lemma demo_authenticate:
  "authenticate demo_env (demo_client tok h) =
     (None, demo_client ''T1'' (h @ [info_request, login_request]))"
  by (simp add: demo_defs exec_defs plain_defs)

lemma locked_authenticate:
  "authenticate locked_env (demo_client tok h) =
     (None, demo_client ''T1'' (h @ [info_request, login_request]))"
  by (simp add: locked_env_def locked_http_Do_def demo_defs exec_defs plain_defs)

lemma locked_get:
  "get locked_env ''Default'' (Suc 0) r (demo_client tok h) =
     (Some errTokenExpired, r, demo_client tok (h @ [clients_request ''Default'' (Suc 0) tok]))"
  by (simp add: locked_env_def locked_http_Do_def demo_defs exec_defs)

lemma locked_always_expired:
  "fst (get locked_env ''Default'' (Suc 0) r c) = Some errTokenExpired"
  by (simp add: locked_env_def locked_http_Do_def demo_defs exec_defs)

lemma demo_get_expired:
  "get demo_env ''Default'' (Suc 0) r (demo_client ''T0'' h) =
     (Some errTokenExpired, r\<lparr>ErrorCode := - 1200, Msg := ''token expired''\<rparr>,
      demo_client ''T0'' (h @ [clients_request ''Default'' (Suc 0) ''T0'']))"
  by (simp add: demo_defs exec_defs)

lemma demo_get_Default_1:
  "get demo_env ''Default'' (Suc 0) r (demo_client ''T1'' h) =
     (None, page_first, demo_client ''T1'' (h @ [clients_request ''Default'' (Suc 0) ''T1'']))"
  by (simp add: demo_defs exec_defs page_first_def demo_page_def)

lemma demo_get_Default_2:
  "get demo_env ''Default'' (Suc (Suc 0)) r (demo_client ''T1'' h) =
     (None, page_second, demo_client ''T1'' (h @ [clients_request ''Default'' (Suc (Suc 0)) ''T1'']))"
  by (simp add: demo_defs exec_defs page_second_def demo_page_def)

lemma demo_get_short_1:
  "get demo_env ''short'' (Suc 0) r (demo_client ''T1'' h) =
     (None, page_first, demo_client ''T1'' (h @ [clients_request ''short'' (Suc 0) ''T1'']))"
  by (simp add: demo_defs exec_defs page_first_def demo_page_def)

lemma demo_get_short_2:
  "get demo_env ''short'' (Suc (Suc 0)) r (demo_client ''T1'' h) =
     (None, page_empty, demo_client ''T1'' (h @ [clients_request ''short'' (Suc (Suc 0)) ''T1'']))"
  by (simp add: demo_defs exec_defs page_empty_def demo_page_def)

lemma demo_get_flaky_1:
  "get demo_env ''flaky'' (Suc 0) r (demo_client ''T1'' h) =
     (None, page_first, demo_client ''T1'' (h @ [clients_request ''flaky'' (Suc 0) ''T1'']))"
  by (simp add: demo_defs exec_defs page_first_def demo_page_def)

lemma demo_get_flaky_2:
  "get demo_env ''flaky'' (Suc (Suc 0)) r (demo_client ''T1'' h) =
     (Some (HTTPStatusError (demo_base @ clients_path ''flaky'' (Suc (Suc 0))) ''500 Internal Server Error''), r,
      demo_client ''T1'' (h @ [clients_request ''flaky'' (Suc (Suc 0)) ''T1'']))"
  by (simp add: demo_defs exec_defs Let_def)

lemma demo_get_denied:
  "get demo_env ''denied'' (Suc 0) r (demo_client ''T1'' h) =
     (Some (ApplicationError (- 1005) ''denied''), r\<lparr>ErrorCode := - 1005, Msg := ''denied''\<rparr>,
      demo_client ''T1'' (h @ [clients_request ''denied'' (Suc 0) ''T1'']))"
  by (simp add: demo_defs exec_defs)

lemma demo_get_repeat_1:
  "get demo_env ''repeat'' (Suc 0) r (demo_client ''T1'' h) =
     (None, page_repeat, demo_client ''T1'' (h @ [clients_request ''repeat'' (Suc 0) ''T1'']))"
  by (simp add: demo_defs exec_defs page_repeat_def demo_page_def)

lemma demo_get_repeat_2:
  "get demo_env ''repeat'' (Suc (Suc 0)) r (demo_client ''T1'' h) =
     (None, page_nothing, demo_client ''T1'' (h @ [clients_request ''repeat'' (Suc (Suc 0)) ''T1'']))"
  by (simp add: demo_defs exec_defs page_nothing_def demo_page_def)

lemma demo_get_endless:
  "get demo_env ''endless'' page r (demo_client ''T1'' h) =
     (None, page_more, demo_client ''T1'' (h @ [clients_request ''endless'' page ''T1'']))"
  by (simp add: demo_defs exec_defs page_more_def demo_page_def Let_def del: itoa.simps)

lemmas demo_steps = fetchPage_def retryOnce_unfold demo_authenticate
  demo_get_expired demo_get_Default_1 demo_get_Default_2 demo_get_short_1 demo_get_short_2
  demo_get_flaky_1 demo_get_flaky_2 demo_get_denied demo_get_repeat_1 demo_get_repeat_2
  demo_get_endless

lemma demo_dedupe:
  "dedupeClients (accumulated [page_first, page_second]) =
     Returned [Some (demo_record ''AA-01'' ''10.0.0.1''), Some (demo_record ''AA-02'' ''10.0.0.2'')]"
  "dedupeClients (accumulated [page_first, page_empty]) =
     Returned [Some (demo_record ''AA-01'' ''10.0.0.1''), Some (demo_record ''AA-02'' ''10.0.0.2'')]"
  "dedupeClients (accumulated (replicate 10 page_more)) =
     Returned [Some (demo_record ''AA-03'' ''10.0.0.3'')]"
  by (simp_all add: dedupeClients_def accumulated_def page_first_def page_second_def
      page_empty_def page_more_def demo_page_def demo_record_def eval_nat_numeral)


section \<open>The claims about the retry-once policy\<close>

text \<open>
  C1. Let the first invocation of the wrapped operation return \<open>err1\<close>, the
  authenticator run after it return \<open>aerr\<close>, and the invocation of the operation after
  that return \<open>err2\<close>; the counter of \<open>counted\<close> tells how often the operation was
  invoked, and the states are threaded in this order. Then \<open>retryOnce\<close> returns
  \<open>err1\<close> after one invocation and no authentication unless \<open>err1\<close> is the
  token-expired signal; otherwise it authenticates once, and returns the failure of the
  authentication after that single invocation, or, when the authentication succeeded,
  whatever the second invocation returns, be it the signal again, and never invokes the
  operation a third time. In particular an operation that fails with the signal on every
  invocation is invoked exactly twice around exactly one authentication, and the second
  failure is returned.
\<close>

theorem retryOnce_bound:
  assumes first: "try v c = (err1, v1, c1)"
    and auth: "authenticate E c1 = (aerr, c2)"
    and second: "try v1 c2 = (err2, v2, c3)"
  shows "retryOnce E (counted try) (0, v) c =
           (if err1 \<noteq> Some errTokenExpired then (err1, (1, v1), c1)
            else if aerr \<noteq> None then (aerr, (1, v1), c2)
            else (err2, (2, v2), c3))
         \<and> ((\<forall>v c. fst (try v c) = Some errTokenExpired) \<and> aerr = None \<longrightarrow>
              retryOnce E (counted try) (0, v) c = (Some errTokenExpired, (2, v2), c3))"
proof -
  have closed: "retryOnce E (counted try) (0, v) c =
           (if err1 \<noteq> Some errTokenExpired then (err1, (1, v1), c1)
            else if aerr \<noteq> None then (aerr, (1, v1), c2)
            else (err2, (2, v2), c3))"
    using first auth second
    by (cases aerr) (simp_all add: retryOnce_unfold counted_def)
  moreover have "err1 = Some errTokenExpired \<and> err2 = Some errTokenExpired"
    if "\<forall>v c. fst (try v c) = Some errTokenExpired"
    using that first second by (metis fst_conv)
  ultimately show ?thesis by simp
qed

theorem retryOnce_bound_witness:
  "(\<forall>r c. fst (get locked_env ''Default'' 1 r c) = Some errTokenExpired)
   \<and> authenticate locked_env (demo_client ''T0'' [clients_request ''Default'' 1 ''T0'']) =
       (None, demo_client ''T1'' [clients_request ''Default'' 1 ''T0'', info_request, login_request])
   \<and> retryOnce locked_env (counted (get locked_env ''Default'' 1)) (0, ClientsResult_zero)
         (demo_client ''T0'' []) =
       (Some errTokenExpired, (2, ClientsResult_zero),
        demo_client ''T1'' [clients_request ''Default'' 1 ''T0'', info_request, login_request,
                            clients_request ''Default'' 1 ''T1''])"
proof -
  let ?c1 = "demo_client ''T0'' [clients_request ''Default'' 1 ''T0'']"
  let ?c2 = "demo_client ''T1'' [clients_request ''Default'' 1 ''T0'', info_request, login_request]"
  let ?c3 = "demo_client ''T1'' [clients_request ''Default'' 1 ''T0'', info_request, login_request,
                                clients_request ''Default'' 1 ''T1'']"
  have first: "get locked_env ''Default'' 1 ClientsResult_zero (demo_client ''T0'' []) =
      (Some errTokenExpired, ClientsResult_zero, ?c1)"
    by (simp add: locked_get)
  have auth: "authenticate locked_env ?c1 = (None, ?c2)"
    by (simp add: locked_authenticate)
  have second: "get locked_env ''Default'' 1 ClientsResult_zero ?c2 =
      (Some errTokenExpired, ClientsResult_zero, ?c3)"
    by (simp add: locked_get)
  from retryOnce_bound [of "get locked_env ''Default'' 1", OF first auth second]
    locked_always_expired auth
  show ?thesis by simp
qed

section \<open>The claims about the paginated fetch\<close>





text \<open>
  C5. Let the controller deliver the envelopes \<open>ps\<close> and then \<open>r\<close> to the fetches of
  the pages 1, 2, ..., at most ten in all, where no envelope of \<open>ps\<close> ends the loop and
  \<open>r\<close> has no record, whether or not the accumulated count has reached its
  \<open>totalRows\<close>; let the accumulator hold the records \<open>cs\<close> (no nil pointer). Then
  \<open>ConnectedClients\<close> returns, with no error, the records of \<open>cs\<close> at the positions
  where a MAC occurs for the first time, in the order of \<open>cs\<close>, which is what
  \<open>dedupeClients\<close> makes of the accumulator; and it returns in the state \<open>c'\<close> that
  the fetch of the empty page left: no request is made after it.
\<close>

theorem ConnectedClients_empty_page:
  assumes "fetches E site 1 c (ps @ [r]) = Some c'"
    and "length ps < maxPages"
    and "continues 0 ps"
    and "Data (Result r) = []"
    and "accumulated ps = map Some cs"
  shows "ConnectedClients E site c =
           (Returned (Some (map Some (map ((!) cs) (first_occurrences cs))), None), c')
         \<and> dedupeClients (accumulated ps) =
             Returned (map Some (map ((!) cs) (first_occurrences cs)))
         \<and> distinct (map MAC (map ((!) cs) (first_occurrences cs)))
         \<and> set (map MAC (map ((!) cs) (first_occurrences cs))) = set (map MAC cs)"
proof -
  let ?out = "map ((!) cs) (first_occurrences cs)"
  have kept: "keep_first {} cs = ?out"
    by (rule keep_first_positions)
  have out: "dedupeClients (accumulated ps) = Returned (map Some ?out)"
    using dedupeClients_records [of cs] by (simp add: assms(5) kept)
  have same: "accumulated (ps @ [r]) = accumulated ps"
    using assms(4) by (simp add: accumulated_def)
  have "ConnectedClients_loop E site 1 [] c =
      (LoopEnd (1 + length ps) ([] @ accumulated (ps @ [r])), c')"
    using assms(1-4) by (intro loop_stops) simp_all
  with out same assms(2) have run: "ConnectedClients E site c =
      (Returned (Some (map Some ?out), None), c')"
    by (simp add: ConnectedClients_def)
  have keys: "distinct (map MAC ?out)" "set (map MAC ?out) = set (map MAC cs)"
    using keep_first_distinct [of "{}" cs] keep_first_keys [of "{}" cs]
    by (simp_all only: kept set_map Diff_empty)
  from run out keys show ?thesis by simp
qed

lemma demo_repeat_first_occurrences:
  "map ((!) [demo_record ''AA-01'' ''10.0.0.1'', demo_record ''AA-02'' ''10.0.0.2'',
             demo_record ''AA-01'' ''10.0.0.9''])
     (first_occurrences [demo_record ''AA-01'' ''10.0.0.1'', demo_record ''AA-02'' ''10.0.0.2'',
                         demo_record ''AA-01'' ''10.0.0.9'']) =
   [demo_record ''AA-01'' ''10.0.0.1'', demo_record ''AA-02'' ''10.0.0.2'']"
  by (simp add: first_occurrences_def demo_record_def upt_conv_Cons)

theorem ConnectedClients_empty_page_witness:
  "fetches demo_env ''repeat'' 1 (demo_client ''T1'' []) ([page_repeat] @ [page_nothing]) =
     Some (demo_client ''T1'' [clients_request ''repeat'' 1 ''T1'', clients_request ''repeat'' 2 ''T1''])
   \<and> length [page_repeat] < maxPages
   \<and> continues 0 [page_repeat]
   \<and> Data (Result page_nothing) = []
   \<and> accumulated [page_repeat] =
       map Some [demo_record ''AA-01'' ''10.0.0.1'', demo_record ''AA-02'' ''10.0.0.2'',
                 demo_record ''AA-01'' ''10.0.0.9'']
   \<and> int (length (accumulated ([page_repeat] @ [page_nothing]))) < TotalRows (Result page_nothing)
   \<and> ConnectedClients demo_env ''repeat'' (demo_client ''T1'' []) =
       (Returned (Some [Some (demo_record ''AA-01'' ''10.0.0.1''),
                        Some (demo_record ''AA-02'' ''10.0.0.2'')], None),
        demo_client ''T1'' [clients_request ''repeat'' 1 ''T1'', clients_request ''repeat'' 2 ''T1''])
   \<and> length (accumulated [page_repeat]) = 3"
proof -
  let ?c' = "demo_client ''T1'' [clients_request ''repeat'' 1 ''T1'', clients_request ''repeat'' 2 ''T1'']"
  have run: "fetches demo_env ''repeat'' 1 (demo_client ''T1'' []) ([page_repeat] @ [page_nothing]) =
      Some ?c'"
    by (simp add: demo_steps numeral_2_eq_2)
  have few: "length [page_repeat] < maxPages"
    by (simp add: maxPages_def)
  have go: "continues 0 [page_repeat]"
    by (simp add: page_repeat_def demo_page_def)
  have empty: "Data (Result page_nothing) = []"
    by (simp add: page_nothing_def demo_page_def)
  have records: "accumulated [page_repeat] =
      map Some [demo_record ''AA-01'' ''10.0.0.1'', demo_record ''AA-02'' ''10.0.0.2'',
                demo_record ''AA-01'' ''10.0.0.9'']"
    by (simp add: accumulated_def page_repeat_def demo_page_def)
  have short: "int (length (accumulated ([page_repeat] @ [page_nothing]))) <
      TotalRows (Result page_nothing)"
    by (simp add: accumulated_def page_repeat_def page_nothing_def demo_page_def)
  have three: "length (accumulated [page_repeat]) = 3"
    by (simp add: records)
  from ConnectedClients_empty_page [OF run few go empty records]
  have "ConnectedClients demo_env ''repeat'' (demo_client ''T1'' []) =
      (Returned (Some [Some (demo_record ''AA-01'' ''10.0.0.1''),
                       Some (demo_record ''AA-02'' ''10.0.0.2'')], None), ?c')"
    by (simp add: demo_repeat_first_occurrences)
  with run few go empty records short three show ?thesis
    by simp
qed

text \<open>
  C10. Whenever \<open>ConnectedClients\<close> returns an error its slice is nil, whatever the
  pages fetched before the failing one held; and a call that returns no error returns a
  slice that is not nil.
\<close>

theorem ConnectedClients_error_nil:
  assumes "ConnectedClients E site c = (Returned (clients, err), c')"
  shows "(err \<noteq> None \<longrightarrow> clients = None) \<and> (err = None \<longrightarrow> clients \<noteq> None)"
  using assms
  by (auto simp: ConnectedClients_def Let_def split: prod.splits loop_exit.splits outcome.splits)

lemma demo_flaky:
  "ConnectedClients demo_env ''flaky'' (demo_client ''T1'' []) =
     (Returned (None, Some (HTTPStatusError (demo_base @ clients_path ''flaky'' 2)
                              ''500 Internal Server Error'')),
      demo_client ''T1'' [clients_request ''flaky'' 1 ''T1'', clients_request ''flaky'' 2 ''T1''])"
proof -
  have run: "fetches demo_env ''flaky'' 1 (demo_client ''T1'' []) [page_first] =
      Some (demo_client ''T1'' [clients_request ''flaky'' 1 ''T1''])"
    by (simp add: demo_steps numeral_2_eq_2)
  have go: "continues (length ([] :: ConnectedClient_ptr list)) [page_first]"
    by (simp add: page_first_def demo_page_def)
  have fail: "fetchPage demo_env ''flaky'' (1 + length [page_first])
        (demo_client ''T1'' [clients_request ''flaky'' 1 ''T1'']) =
      (Some (HTTPStatusError (demo_base @ clients_path ''flaky'' 2) ''500 Internal Server Error''),
       ClientsResult_zero,
       demo_client ''T1'' [clients_request ''flaky'' 1 ''T1'', clients_request ''flaky'' 2 ''T1''])"
    by (simp add: demo_steps numeral_2_eq_2)
  have "ConnectedClients_loop demo_env ''flaky'' 1 [] (demo_client ''T1'' []) =
      (LoopReturn (HTTPStatusError (demo_base @ clients_path ''flaky'' 2) ''500 Internal Server Error''),
       demo_client ''T1'' [clients_request ''flaky'' 1 ''T1'', clients_request ''flaky'' 2 ''T1''])"
    by (rule loop_fails [OF run _ go fail]) (simp add: maxPages_def)
  then show ?thesis
    by (simp add: ConnectedClients_def)
qed

lemma demo_short:
  "ConnectedClients demo_env ''short'' (demo_client ''T1'' []) =
     (Returned (Some [Some (demo_record ''AA-01'' ''10.0.0.1''),
                      Some (demo_record ''AA-02'' ''10.0.0.2'')], None),
      demo_client ''T1'' [clients_request ''short'' 1 ''T1'', clients_request ''short'' 2 ''T1''])"
proof -
  have run: "fetches demo_env ''short'' 1 (demo_client ''T1'' []) ([page_first] @ [page_empty]) =
      Some (demo_client ''T1'' [clients_request ''short'' 1 ''T1'', clients_request ''short'' 2 ''T1''])"
    by (simp add: demo_steps numeral_2_eq_2)
  have go: "continues (length ([] :: ConnectedClient_ptr list)) [page_first]"
    by (simp add: page_first_def demo_page_def)
  have stop: "TotalRows (Result page_empty)
        \<le> int (length ([] @ accumulated ([page_first] @ [page_empty])))
      \<or> Data (Result page_empty) = []"
    by (simp add: page_empty_def demo_page_def)
  have "ConnectedClients_loop demo_env ''short'' 1 [] (demo_client ''T1'' []) =
      (LoopEnd (1 + length [page_first]) ([] @ accumulated ([page_first] @ [page_empty])),
       demo_client ''T1'' [clients_request ''short'' 1 ''T1'', clients_request ''short'' 2 ''T1''])"
    by (rule loop_stops [OF run _ go stop]) (simp add: maxPages_def)
  then show ?thesis
    using demo_dedupe(2) by (simp add: ConnectedClients_def maxPages_def)
qed

theorem ConnectedClients_error_nil_witness:
  "ConnectedClients demo_env ''flaky'' (demo_client ''T1'' []) =
     (Returned (None, Some (HTTPStatusError (demo_base @ clients_path ''flaky'' 2)
                              ''500 Internal Server Error'')),
      demo_client ''T1'' [clients_request ''flaky'' 1 ''T1'', clients_request ''flaky'' 2 ''T1''])
   \<and> ConnectedClients demo_env ''short'' (demo_client ''T1'' []) =
       (Returned (Some [Some (demo_record ''AA-01'' ''10.0.0.1''),
                        Some (demo_record ''AA-02'' ''10.0.0.2'')], None),
        demo_client ''T1'' [clients_request ''short'' 1 ''T1'', clients_request ''short'' 2 ''T1''])
   \<and> Some (HTTPStatusError (demo_base @ clients_path ''flaky'' 2) ''500 Internal Server Error'') \<noteq> None
   \<and> (None :: ConnectedClient_ptr list option) = None
   \<and> Some [Some (demo_record ''AA-01'' ''10.0.0.1''), Some (demo_record ''AA-02'' ''10.0.0.2'')] \<noteq> None"
  using ConnectedClients_error_nil [OF demo_flaky] ConnectedClients_error_nil [OF demo_short]
    demo_flaky demo_short
  by simp

section \<open>Properties of the session and of the request executor\<close>

lemma strings_TrimSuffix_slash: "strings_TrimSuffix (s @ ''/'') ''/'' = s"
  by (simp add: strings_TrimSuffix_def strings_HasSuffix_def)

lemma strings_TrimSuffix_other:
  "\<not> strings_HasSuffix s suf \<Longrightarrow> strings_TrimSuffix s suf = s"
  by (simp add: strings_TrimSuffix_def)

lemma unreserved_not_slash: "unreserved x \<Longrightarrow> x \<noteq> CHR ''/''"
  by (auto simp: unreserved_def alphanum_def)

lemma plain_segment_not_root: "plain_segment s \<Longrightarrow> s \<noteq> ''/''"
  by (auto simp: plain_segment_def dest: unreserved_not_slash)

lemma plain_segment_last: "plain_segment s \<Longrightarrow> \<not> strings_HasSuffix (t @ CHR ''/'' # s) ''/''"
proof
  assume seg: "plain_segment s" and suf: "strings_HasSuffix (t @ CHR ''/'' # s) ''/''"
  from seg have ne: "s \<noteq> []" and all: "list_all unreserved s"
    by (simp_all add: plain_segment_def)
  from suf have "drop (length (t @ CHR ''/'' # s) - 1) (t @ CHR ''/'' # s) = ''/''"
    by (simp add: strings_HasSuffix_def)
  moreover from ne have "drop (length (t @ CHR ''/'' # s) - 1) (t @ CHR ''/'' # s) = [last s]"
    by (induction s rule: rev_induct) simp_all
  ultimately have "last s = CHR ''/''" by simp
  moreover from ne all have "unreserved (last s)"
    by (simp add: list_all_iff)
  ultimately show False
    using unreserved_not_slash by blast
qed

lemma url_JoinPath_plain:
  "plain_url base \<Longrightarrow> plain_segment elem \<Longrightarrow>
   url_JoinPath E base elem = Inr (strings_TrimSuffix base ''/'' @ ''/'' @ elem)"
  by (simp add: url_JoinPath_def plain_segment_not_root)

lemma url_JoinPath_root:
  "plain_url base \<Longrightarrow> url_JoinPath E base ''/'' = Inr (strings_TrimSuffix base ''/'' @ ''/'')"
  by (simp add: url_JoinPath_def)

lemma SetBaseURL_joins:
  "url_JoinPath E (configPath c) p = Inr joined \<Longrightarrow>
   SetBaseURL E p c = (None, c\<lparr>baseURL := strings_TrimSuffix joined ''/''\<rparr>)"
  by (simp add: SetBaseURL_def)

lemma SetBaseURL_plain:
  "plain_url (configPath c) \<Longrightarrow> plain_segment p \<Longrightarrow>
   SetBaseURL E p c = (None, c\<lparr>baseURL := strings_TrimSuffix (configPath c) ''/'' @ ''/'' @ p\<rparr>)"
  by (simp add: SetBaseURL_joins [OF url_JoinPath_plain] strings_TrimSuffix_other plain_segment_last)

lemma SetBaseURL_root:
  "plain_url (configPath c) \<Longrightarrow>
   SetBaseURL E ''/'' c = (None, c\<lparr>baseURL := strings_TrimSuffix (configPath c) ''/''\<rparr>)"
  using SetBaseURL_joins [OF url_JoinPath_root, of c E] strings_TrimSuffix_slash
  by simp

text \<open>
  C7. \<open>SetBaseURL\<close> sets the base URL to the join of \<open>configPath\<close> and its argument,
  without the final \<open>/\<close> of the join if it has one, and leaves the client as it is when
  the join fails. The base URL that the client had does not enter: the outcome is the
  same from any base URL, so a second call with the same argument changes nothing. On a
  plain \<open>configPath\<close> and a plain segment the base URL after two calls is the
  \<open>configPath\<close> without its final \<open>/\<close>, then \<open>/\<close> and the segment, once.
\<close>

theorem SetBaseURL_idempotent:
  "baseURL (snd (SetBaseURL E p c)) =
     (case url_JoinPath E (configPath c) p of
        Inl err \<Rightarrow> baseURL c
      | Inr joined \<Rightarrow> strings_TrimSuffix joined ''/'')
   \<and> (\<forall>s. url_JoinPath E (configPath c) p = Inr (s @ ''/'') \<longrightarrow>
          baseURL (snd (SetBaseURL E p c)) = s)
   \<and> SetBaseURL E p (snd (SetBaseURL E p c)) = SetBaseURL E p c
   \<and> fst (SetBaseURL E p (c\<lparr>baseURL := b\<rparr>)) = fst (SetBaseURL E p c)
   \<and> (fst (SetBaseURL E p c) = None \<longrightarrow>
        snd (SetBaseURL E p (c\<lparr>baseURL := b\<rparr>)) = snd (SetBaseURL E p c))
   \<and> (plain_url (configPath c) \<and> plain_segment p \<longrightarrow>
        snd (SetBaseURL E p (snd (SetBaseURL E p c))) =
          c\<lparr>baseURL := strings_TrimSuffix (configPath c) ''/'' @ ''/'' @ p\<rparr>)"
proof (cases "url_JoinPath E (configPath c) p")
  case (Inl err)
  show ?thesis
  proof (cases "plain_url (configPath c) \<and> plain_segment p")
    case True
    with Inl show ?thesis
      by (simp add: url_JoinPath_plain)
  next
    case False
    with Inl show ?thesis
      by (auto simp: SetBaseURL_def)
  qed
next
  case (Inr joined)
  then have "plain_url (configPath c) \<and> plain_segment p \<longrightarrow>
      strings_TrimSuffix joined ''/'' = strings_TrimSuffix (configPath c) ''/'' @ ''/'' @ p"
    by (auto simp: url_JoinPath_plain strings_TrimSuffix_other plain_segment_last)
  with Inr show ?thesis
    by (auto simp: SetBaseURL_def strings_TrimSuffix_slash)
qed

theorem SetBaseURL_idempotent_witness:
  "url_JoinPath demo_env ''https://omada.local:8043/'' ''/'' = Inr (''https://omada.local:8043'' @ ''/'')
   \<and> baseURL (snd (SetBaseURL demo_env ''/'' (demo_client ''T1'' []))) = ''https://omada.local:8043''
   \<and> fst (SetBaseURL demo_env ''abc123'' (demo_client ''T1'' [])) = None
   \<and> plain_url ''https://omada.local:8043/'' \<and> plain_segment ''abc123''
   \<and> snd (SetBaseURL demo_env ''abc123'' ((demo_client ''T1'' [])\<lparr>baseURL := ''https://stale''\<rparr>)) =
       demo_client ''T1'' []
   \<and> snd (SetBaseURL demo_env ''abc123'' (snd (SetBaseURL demo_env ''abc123'' (demo_client ''T1'' [])))) =
       demo_client ''T1'' []"
proof -
  have plain: "plain_url ''https://omada.local:8043/''" "plain_segment ''abc123''"
    by (simp_all add: plain_defs)
  have root: "url_JoinPath demo_env ''https://omada.local:8043/'' ''/'' =
      Inr (''https://omada.local:8043'' @ ''/'')"
    using plain by (simp add: url_JoinPath_def strings_TrimSuffix_def strings_HasSuffix_def)
  have conf: "configPath (demo_client ''T1'' []) = ''https://omada.local:8043/''"
    by (simp add: demo_client_def)
  have trim: "strings_TrimSuffix ''https://omada.local:8043/'' ''/'' = ''https://omada.local:8043''"
    by (simp add: strings_TrimSuffix_def strings_HasSuffix_def)
  have once: "SetBaseURL demo_env ''abc123'' (demo_client ''T1'' []) = (None, demo_client ''T1'' [])"
    using plain by (simp add: SetBaseURL_plain conf trim) (simp add: demo_client_def demo_base_def)
  from SetBaseURL_idempotent [of demo_env "''/''" "demo_client ''T1'' []" "''https://stale''"]
    SetBaseURL_idempotent [of demo_env "''abc123''" "demo_client ''T1'' []" "''https://stale''"]
    plain root conf trim once
  show ?thesis by simp
qed


lemma doJSON_cases:
  assumes "doJSON E decode req target c = (err, t', c')"
  shows "\<exists>q. c' = c\<lparr>http := http c @ [q]\<rparr>
           \<and> Method q = Method req \<and> URL q = URL req \<and> Body q = Body req
           \<and> Header_Get q ''Csrf-Token'' = Some (token c)
           \<and> (case http_Do E (http c') of
                 NetError msg \<Rightarrow> err = Some (TransportError msg) \<and> t' = target
               | Response code status b \<Rightarrow>
                   if code = 401 then err = Some errTokenExpired \<and> t' = target
                   else if code \<noteq> 200
                     then err = Some (HTTPStatusError (URL req) status) \<and> t' = target
                   else (case decode b target of
                           None \<Rightarrow> err = Some DecodeError \<and> t' = target
                         | Some d \<Rightarrow> err = None \<and> t' = d))"
  using assms
  by (auto simp: doJSON_def Let_def Header_Get_def Token_of_def
      split: http_result.splits option.splits if_splits)

lemma getJSON_cases:
  assumes "getJSON E decode url target c = (err, t', c')"
  shows "(\<exists>msg. NewRequest_error E (baseURL c @ url) = Some msg
            \<and> err = Some (URLError msg) \<and> t' = target \<and> c' = c)
         \<or> (NewRequest_error E (baseURL c @ url) = None
            \<and> doJSON E decode
                 \<lparr>Method = ''GET'', URL = baseURL c @ url, Header = [], Cookie = [], Body = NoBody\<rparr>
                 target c = (err, t', c'))"
  using assms
  by (auto simp: getJSON_def http_NewRequest_def BaseURL_def split: option.splits)

lemma postJSON_cases:
  assumes "postJSON E decode url b target c = (err, t', c')"
  shows "(\<exists>msg. NewRequest_error E (baseURL c @ url) = Some msg
            \<and> err = Some (URLError msg) \<and> t' = target \<and> c' = c)
         \<or> (NewRequest_error E (baseURL c @ url) = None
            \<and> doJSON E decode
                 \<lparr>Method = ''POST'', URL = baseURL c @ url, Header = [], Cookie = [], Body = b\<rparr>
                 target c = (err, t', c'))"
  using assms
  by (auto simp: postJSON_def http_NewRequest_def BaseURL_def split: option.splits)

text \<open>What a request that succeeded has gone through.\<close>

lemma getJSON_ok:
  assumes "getJSON E decode url target c = (None, t', c')"
  shows "\<exists>q status b. c' = c\<lparr>http := http c @ [q]\<rparr>
           \<and> Method q = ''GET'' \<and> URL q = baseURL c @ url \<and> Body q = NoBody
           \<and> Header_Get q ''Csrf-Token'' = Some (token c)
           \<and> http_Do E (http c @ [q]) = Response 200 status b \<and> decode b target = Some t'"
proof -
  from getJSON_cases [OF assms] have
    run: "doJSON E decode
        \<lparr>Method = ''GET'', URL = baseURL c @ url, Header = [], Cookie = [], Body = NoBody\<rparr>
        target c = (None, t', c')"
    by auto
  from doJSON_cases [OF run] show ?thesis
    by (auto split: http_result.splits option.splits if_splits)
qed

lemma postJSON_ok:
  assumes "postJSON E decode url body target c = (None, t', c')"
  shows "\<exists>q status b. c' = c\<lparr>http := http c @ [q]\<rparr>
           \<and> Method q = ''POST'' \<and> URL q = baseURL c @ url \<and> Body q = body
           \<and> Header_Get q ''Csrf-Token'' = Some (token c)
           \<and> http_Do E (http c @ [q]) = Response 200 status b \<and> decode b target = Some t'"
proof -
  from postJSON_cases [OF assms] have
    run: "doJSON E decode
        \<lparr>Method = ''POST'', URL = baseURL c @ url, Header = [], Cookie = [], Body = body\<rparr>
        target c = (None, t', c')"
    by auto
  from doJSON_cases [OF run] show ?thesis
    by (auto split: http_result.splits option.splits if_splits)
qed

text \<open>What any request, sent or not, leaves of the session.\<close>

lemma doJSON_session:
  assumes "doJSON E decode req target c = (err, t', c')"
  shows "\<exists>q. c' = c\<lparr>http := http c @ [q]\<rparr> \<and> URL q = URL req
           \<and> Header_Get q ''Csrf-Token'' = Some (token c)"
  using doJSON_cases [OF assms] by blast

lemma getJSON_session:
  assumes "getJSON E decode url target c = (err, t', c')"
  shows "token c' = token c \<and> baseURL c' = baseURL c \<and> configPath c' = configPath c
         \<and> username c' = username c \<and> password c' = password c \<and> logger c' = logger c
         \<and> ((c' = c \<and> err \<noteq> None)
              \<or> (\<exists>q. http c' = http c @ [q] \<and> URL q = baseURL c @ url
                       \<and> Header_Get q ''Csrf-Token'' = Some (token c)))"
  using getJSON_cases [OF assms]
proof (elim disjE exE conjE)
  fix msg
  assume "c' = c" and "err = Some (URLError msg)"
  then show ?thesis by simp
next
  assume "doJSON E decode
      \<lparr>Method = ''GET'', URL = baseURL c @ url, Header = [], Cookie = [], Body = NoBody\<rparr>
      target c = (err, t', c')"
  from doJSON_session [OF this] show ?thesis by auto
qed

lemma postJSON_session:
  assumes "postJSON E decode url body target c = (err, t', c')"
  shows "token c' = token c \<and> baseURL c' = baseURL c \<and> configPath c' = configPath c
         \<and> username c' = username c \<and> password c' = password c \<and> logger c' = logger c
         \<and> ((c' = c \<and> err \<noteq> None)
              \<or> (\<exists>q. http c' = http c @ [q] \<and> URL q = baseURL c @ url
                       \<and> Header_Get q ''Csrf-Token'' = Some (token c)))"
  using postJSON_cases [OF assms]
proof (elim disjE exE conjE)
  fix msg
  assume "c' = c" and "err = Some (URLError msg)"
  then show ?thesis by simp
next
  assume "doJSON E decode
      \<lparr>Method = ''POST'', URL = baseURL c @ url, Header = [], Cookie = [], Body = body\<rparr>
      target c = (err, t', c')"
  from doJSON_session [OF this] show ?thesis by auto
qed

lemma SetBaseURL_session:
  assumes "SetBaseURL E p c = (err, c')"
  shows "token c' = token c \<and> configPath c' = configPath c \<and> username c' = username c
         \<and> password c' = password c \<and> logger c' = logger c \<and> http c' = http c"
  using assms by (auto simp: SetBaseURL_def split: sum.splits)


section \<open>The claims about the session\<close>

lemma get_cases:
  assumes run: "get E site page r c = (err, r', c')"
    and new: "NewRequest_error E (BaseURL c @ clients_path site page) = None"
  shows "case http_Do E (http c') of
           NetError msg \<Rightarrow> err = Some (TransportError msg)
         | Response code status b \<Rightarrow>
             if code = 401 then err = Some errTokenExpired
             else if code \<noteq> 200
               then err = Some (HTTPStatusError (baseURL c @ clients_path site page) status)
             else (case Decode_clients E b r of
                     None \<Rightarrow> err = Some DecodeError
                   | Some d \<Rightarrow>
                       r' = d \<and>
                       (if ErrorCode d = - 1200 then err = Some errTokenExpired
                        else if ErrorCode d \<noteq> 0
                          then err = Some (ApplicationError (ErrorCode d) (Msg d))
                        else err = None))"
proof -
  obtain e t k where inner:
    "getJSON E (Decode_clients E) (clients_path site page) r c = (e, t, k)"
    by (cases "getJSON E (Decode_clients E) (clients_path site page) r c") auto
  from getJSON_cases [OF inner] new have sent: "doJSON E (Decode_clients E)
      \<lparr>Method = ''GET'', URL = baseURL c @ clients_path site page, Header = [], Cookie = [],
         Body = NoBody\<rparr> r c = (e, t, k)"
    by (auto simp: BaseURL_def)
  from run inner have same: "k = c'" "t = r'"
    by (auto simp: get_def Let_def split: option.splits if_splits)
  from run inner have err: "err = (case e of Some x \<Rightarrow> Some x
      | None \<Rightarrow> if ErrorCode t = - 1200 then Some errTokenExpired
                else if ErrorCode t \<noteq> 0 then Some (ApplicationError (ErrorCode t) (Msg t))
                else None)"
    by (auto simp: get_def Let_def split: option.splits if_splits)
  from doJSON_cases [OF sent] same err show ?thesis
    by (auto split: http_result.splits option.splits if_splits)
qed

text \<open>
  C6. The request layer returns the token-expired signal whenever the answer to the
  request it sent has the status 401, whatever the body and the decoder. The closure of
  the page fetch, when its request is sent and answered with the status 200 and a body
  that decodes to an envelope, returns that same signal for the error code \<open>-1200\<close>,
  so that the retry-once policy authenticates again and invokes the closure once more;
  for every other error code but 0 it returns an error that carries the code and the
  message, which is not the signal, and which the policy returns as it is, with no
  authentication and no second invocation.
\<close>

theorem token_expired_signal:
  "(doJSON E decode req target c = (err, t', c')
      \<and> http_Do E (http c') = Response 401 status b \<longrightarrow>
    err = Some errTokenExpired)
   \<and> (NewRequest_error E (BaseURL c0 @ clients_path site page) = None
      \<and> get E site page r c0 = (err0, r0, c0')
      \<and> http_Do E (http c0') = Response 200 status0 b0
      \<and> Decode_clients E b0 r = Some d \<longrightarrow>
        (ErrorCode d = - 1200 \<longrightarrow>
           err0 = Some errTokenExpired \<and> errors_Is err0 errTokenExpired
           \<and> retryOnce E (get E site page) r c0 =
               (case authenticate E c0' of
                  (Some err', c2) \<Rightarrow> (Some err', r0, c2)
                | (None, c2) \<Rightarrow> get E site page r0 c2))
      \<and> (ErrorCode d \<noteq> - 1200 \<and> ErrorCode d \<noteq> 0 \<longrightarrow>
           err0 = Some (ApplicationError (ErrorCode d) (Msg d))
           \<and> \<not> errors_Is err0 errTokenExpired
           \<and> retryOnce E (get E site page) r c0 = (err0, r0, c0')))"
proof (intro conjI impI; (elim conjE)?)
  assume "doJSON E decode req target c = (err, t', c')"
    and "http_Do E (http c') = Response 401 status b"
  with doJSON_cases [of E decode req target c err t' c'] show "err = Some errTokenExpired"
    by auto
next
  assume new: "NewRequest_error E (BaseURL c0 @ clients_path site page) = None"
    and run: "get E site page r c0 = (err0, r0, c0')"
    and answer: "http_Do E (http c0') = Response 200 status0 b0"
    and decoded: "Decode_clients E b0 r = Some d"
    and code: "ErrorCode d = - 1200"
  from get_cases [OF run new] answer decoded code
  have signal: "err0 = Some errTokenExpired" by simp
  then show "err0 = Some errTokenExpired" .
  from signal show "errors_Is err0 errTokenExpired"
    by (simp add: errors_Is_def)
  from signal run show "retryOnce E (get E site page) r c0 =
      (case authenticate E c0' of
         (Some err', c2) \<Rightarrow> (Some err', r0, c2)
       | (None, c2) \<Rightarrow> get E site page r0 c2)"
    by (simp add: retryOnce_unfold)
next
  assume new: "NewRequest_error E (BaseURL c0 @ clients_path site page) = None"
    and run: "get E site page r c0 = (err0, r0, c0')"
    and answer: "http_Do E (http c0') = Response 200 status0 b0"
    and decoded: "Decode_clients E b0 r = Some d"
    and code: "ErrorCode d \<noteq> - 1200" "ErrorCode d \<noteq> 0"
  from get_cases [OF run new] answer decoded code
  have terminal: "err0 = Some (ApplicationError (ErrorCode d) (Msg d))" by simp
  then show "err0 = Some (ApplicationError (ErrorCode d) (Msg d))" .
  from terminal show "\<not> errors_Is err0 errTokenExpired"
    by (simp add: errors_Is_def)
  from terminal run show "retryOnce E (get E site page) r c0 = (err0, r0, c0')"
    by (simp add: retryOnce_unfold)
qed


lemma demo_answers:
  "http_Do locked_env [clients_request ''Default'' (Suc 0) ''T1''] =
     Response 401 ''401 Unauthorized'' ''first''"
  "http_Do demo_env [clients_request ''Default'' (Suc 0) ''T0''] = Response 200 ''200 OK'' ''expired''"
  "http_Do demo_env [clients_request ''denied'' (Suc 0) ''T1''] = Response 200 ''200 OK'' ''denied''"
  "Decode_clients demo_env ''expired'' r = Some (r\<lparr>ErrorCode := - 1200, Msg := ''token expired''\<rparr>)"
  "Decode_clients demo_env ''denied'' r = Some (r\<lparr>ErrorCode := - 1005, Msg := ''denied''\<rparr>)"
  "NewRequest_error demo_env u = None"
  by (simp_all add: locked_env_def locked_http_Do_def demo_defs clients_path_def
      url_QueryEscape_def shouldEscape_def unreserved_def alphanum_def digit_def
      strings_HasSuffix_def)

lemma locked_doJSON:
  "doJSON locked_env (Decode_clients locked_env)
     \<lparr>Method = ''GET'', URL = demo_base @ clients_path ''Default'' (Suc 0), Header = [], Cookie = [],
        Body = NoBody\<rparr> r (demo_client tok h) =
   (Some errTokenExpired, r, demo_client tok (h @ [clients_request ''Default'' (Suc 0) tok]))"
  by (simp add: locked_env_def locked_http_Do_def demo_defs exec_defs)

theorem token_expired_signal_witness:
  "doJSON locked_env (Decode_clients locked_env)
     \<lparr>Method = ''GET'', URL = demo_base @ clients_path ''Default'' 1, Header = [], Cookie = [],
        Body = NoBody\<rparr> ClientsResult_zero (demo_client ''T1'' []) =
     (Some errTokenExpired, ClientsResult_zero, demo_client ''T1'' [clients_request ''Default'' 1 ''T1''])
   \<and> http_Do locked_env (http (demo_client ''T1'' [clients_request ''Default'' 1 ''T1''])) =
       Response 401 ''401 Unauthorized'' ''first''
   \<and> NewRequest_error demo_env (BaseURL (demo_client ''T0'' []) @ clients_path ''Default'' 1) = None
   \<and> get demo_env ''Default'' 1 ClientsResult_zero (demo_client ''T0'' []) =
       (Some errTokenExpired, ClientsResult_zero\<lparr>ErrorCode := - 1200, Msg := ''token expired''\<rparr>,
        demo_client ''T0'' [clients_request ''Default'' 1 ''T0''])
   \<and> http_Do demo_env (http (demo_client ''T0'' [clients_request ''Default'' 1 ''T0''])) =
       Response 200 ''200 OK'' ''expired''
   \<and> Decode_clients demo_env ''expired'' ClientsResult_zero =
       Some (ClientsResult_zero\<lparr>ErrorCode := - 1200, Msg := ''token expired''\<rparr>)
   \<and> retryOnce demo_env (get demo_env ''Default'' 1) ClientsResult_zero (demo_client ''T0'' []) =
       (None, page_first,
        demo_client ''T1'' [clients_request ''Default'' 1 ''T0'', info_request, login_request,
                            clients_request ''Default'' 1 ''T1''])
   \<and> NewRequest_error demo_env (BaseURL (demo_client ''T1'' []) @ clients_path ''denied'' 1) = None
   \<and> get demo_env ''denied'' 1 ClientsResult_zero (demo_client ''T1'' []) =
       (Some (ApplicationError (- 1005) ''denied''),
        ClientsResult_zero\<lparr>ErrorCode := - 1005, Msg := ''denied''\<rparr>,
        demo_client ''T1'' [clients_request ''denied'' 1 ''T1''])
   \<and> http_Do demo_env (http (demo_client ''T1'' [clients_request ''denied'' 1 ''T1''])) =
       Response 200 ''200 OK'' ''denied''
   \<and> Decode_clients demo_env ''denied'' ClientsResult_zero =
       Some (ClientsResult_zero\<lparr>ErrorCode := - 1005, Msg := ''denied''\<rparr>)
   \<and> retryOnce demo_env (get demo_env ''denied'' 1) ClientsResult_zero (demo_client ''T1'' []) =
       (Some (ApplicationError (- 1005) ''denied''),
        ClientsResult_zero\<lparr>ErrorCode := - 1005, Msg := ''denied''\<rparr>,
        demo_client ''T1'' [clients_request ''denied'' 1 ''T1''])"
proof -
  let ?x = "ClientsResult_zero\<lparr>ErrorCode := - 1200, Msg := ''token expired''\<rparr>"
  let ?d = "ClientsResult_zero\<lparr>ErrorCode := - 1005, Msg := ''denied''\<rparr>"
  have unauthorized: "doJSON locked_env (Decode_clients locked_env)
      \<lparr>Method = ''GET'', URL = demo_base @ clients_path ''Default'' 1, Header = [], Cookie = [],
         Body = NoBody\<rparr> ClientsResult_zero (demo_client ''T1'' []) =
      (Some errTokenExpired, ClientsResult_zero, demo_client ''T1'' [clients_request ''Default'' 1 ''T1''])"
    by (simp add: locked_doJSON)
  have answer1: "http_Do locked_env (http (demo_client ''T1'' [clients_request ''Default'' 1 ''T1''])) =
      Response 401 ''401 Unauthorized'' ''first''"
    by (simp add: demo_answers demo_client_def)
  have expired: "get demo_env ''Default'' 1 ClientsResult_zero (demo_client ''T0'' []) =
      (Some errTokenExpired, ?x, demo_client ''T0'' [clients_request ''Default'' 1 ''T0''])"
    by (simp add: demo_get_expired)
  have answer2: "http_Do demo_env (http (demo_client ''T0'' [clients_request ''Default'' 1 ''T0''])) =
      Response 200 ''200 OK'' ''expired''"
    by (simp add: demo_answers demo_client_def)
  have code2: "ErrorCode ?x = - 1200"
    by simp
  have denied: "get demo_env ''denied'' 1 ClientsResult_zero (demo_client ''T1'' []) =
      (Some (ApplicationError (- 1005) ''denied''), ?d,
       demo_client ''T1'' [clients_request ''denied'' 1 ''T1''])"
    by (simp add: demo_get_denied)
  have answer3: "http_Do demo_env (http (demo_client ''T1'' [clients_request ''denied'' 1 ''T1''])) =
      Response 200 ''200 OK'' ''denied''"
    by (simp add: demo_answers demo_client_def)
  have code3: "ErrorCode ?d \<noteq> - 1200" "ErrorCode ?d \<noteq> 0" "ErrorCode ?d = - 1005" "Msg ?d = ''denied''"
    by simp_all
  have again: "get demo_env ''Default'' 1 ?x
      (demo_client ''T1'' [clients_request ''Default'' 1 ''T0'', info_request, login_request]) =
      (None, page_first,
       demo_client ''T1'' [clients_request ''Default'' 1 ''T0'', info_request, login_request,
                           clients_request ''Default'' 1 ''T1''])"
    by (simp add: demo_get_Default_1)
  have auth: "authenticate demo_env (demo_client ''T0'' [clients_request ''Default'' 1 ''T0'']) =
      (None, demo_client ''T1'' [clients_request ''Default'' 1 ''T0'', info_request, login_request])"
    by (simp add: demo_authenticate)
  note unused1 = token_expired_signal [where ?c0.0 = "demo_client ''T1'' []" and site = "[]"
      and page = 0 and r = ClientsResult_zero and ?err0.0 = None and ?r0.0 = ClientsResult_zero
      and c0' = "demo_client ''T1'' []" and ?status0.0 = "[]" and ?b0.0 = "[]"
      and d = ClientsResult_zero]
  note unused2 = token_expired_signal [where decode = "Decode_clients demo_env"
      and req = "\<lparr>Method = [], URL = [], Header = [], Cookie = [], Body = NoBody\<rparr>"
      and target = ClientsResult_zero and c = "demo_client ''T1'' []" and err = None
      and t' = ClientsResult_zero and c' = "demo_client ''T1'' []" and status = "[]" and b = "[]"]
  from unused1 [where E = locked_env and decode = "Decode_clients locked_env"
      and req = "\<lparr>Method = ''GET'', URL = demo_base @ clients_path ''Default'' 1, Header = [],
                   Cookie = [], Body = NoBody\<rparr>"
      and target = ClientsResult_zero and c = "demo_client ''T1'' []"
      and err = "Some errTokenExpired" and t' = ClientsResult_zero
      and c' = "demo_client ''T1'' [clients_request ''Default'' 1 ''T1'']"
      and status = "''401 Unauthorized''" and b = "''first''"]
    unused2 [where E = demo_env and ?c0.0 = "demo_client ''T0'' []"
      and site = "''Default''" and page = 1 and r = ClientsResult_zero
      and ?err0.0 = "Some errTokenExpired" and ?r0.0 = ?x
      and c0' = "demo_client ''T0'' [clients_request ''Default'' 1 ''T0'']"
      and ?status0.0 = "''200 OK''" and ?b0.0 = "''expired''" and d = ?x]
    unused2 [where E = demo_env and ?c0.0 = "demo_client ''T1'' []"
      and site = "''denied''" and page = 1 and r = ClientsResult_zero
      and ?err0.0 = "Some (ApplicationError (- 1005) ''denied'')" and ?r0.0 = ?d
      and c0' = "demo_client ''T1'' [clients_request ''denied'' 1 ''T1'']"
      and ?status0.0 = "''200 OK''" and ?b0.0 = "''denied''" and d = ?d]
    unauthorized answer1 expired answer2 code2 denied answer3 code3 again auth
    demo_answers(4) [of ClientsResult_zero] demo_answers(5) [of ClientsResult_zero] demo_answers(6)
  show ?thesis
    by simp
qed


lemma authenticate_token:
  assumes "authenticate E c = (err, c')"
  shows "(token c' \<noteq> [] \<longleftrightarrow> err = None)
         \<and> configPath c' = configPath c \<and> username c' = username c \<and> password c' = password c"
  using assms
  by (auto simp: authenticate_def SetToken_def Let_def
      split: prod.splits option.splits if_splits
      dest!: SetBaseURL_session getJSON_session postJSON_session)

lemma authenticate_requests:
  assumes "authenticate E c = (err, c')"
  shows "\<forall>q \<in> set (drop (length (http c)) (http c')). Header_Get q ''Csrf-Token'' = Some []"
  using assms
  by (auto simp: authenticate_def SetToken_def Let_def
      split: prod.splits option.splits if_splits
      dest!: SetBaseURL_session getJSON_session postJSON_session)

lemma authenticate_reset:
  assumes "authenticate E c = (err, c')"
  shows "(\<forall>msg. url_JoinPath E (configPath c) ''/'' = Inl msg \<longrightarrow>
            err = Some msg \<and> c' = c\<lparr>token := []\<rparr>)
         \<and> (\<forall>root. url_JoinPath E (configPath c) ''/'' = Inr root \<longrightarrow>
              (\<forall>q \<in> set (take 1 (drop (length (http c)) (http c'))).
                 URL q = strings_TrimSuffix root ''/'' @ ''/api/info''))"
  using assms
  by (auto simp: authenticate_def SetToken_def SetBaseURL_def Let_def
      split: prod.splits option.splits if_splits sum.splits
      dest!: getJSON_session postJSON_session)

lemma authenticate_success:
  assumes run: "authenticate E c = (None, c')"
  shows "\<exists>q1 q2 status1 b1 status2 b2 ir ar root joined.
           http c' = http c @ [q1, q2]
         \<and> url_JoinPath E (configPath c) ''/'' = Inr root
         \<and> Method q1 = ''GET'' \<and> URL q1 = strings_TrimSuffix root ''/'' @ ''/api/info''
         \<and> http_Do E (http c @ [q1]) = Response 200 status1 b1
         \<and> Decode_info E b1 infoResult_zero = Some ir \<and> ControllerID ir \<noteq> []
         \<and> url_JoinPath E (configPath c) (ControllerID ir) = Inr joined
         \<and> baseURL c' = strings_TrimSuffix joined ''/''
         \<and> Method q2 = ''POST'' \<and> URL q2 = baseURL c' @ ''/api/v2/login''
         \<and> Body q2 = JSONBody [(''password'', password c), (''username'', username c)]
         \<and> http_Do E (http c') = Response 200 status2 b2
         \<and> Decode_auth E b2 authResult_zero = Some ar
         \<and> token c' = Token ar"
proof -
  let ?c0 = "SetToken [] c"
  from run obtain c1 where s1: "SetBaseURL E ''/'' ?c0 = (None, c1)"
    by (auto simp: authenticate_def split: prod.splits option.splits)
  from run s1 obtain ir c2 where
    s2: "getJSON E (Decode_info E) ''/api/info'' infoResult_zero c1 = (None, ir, c2)"
    by (auto simp: authenticate_def split: prod.splits option.splits)
  from run s1 s2 have id: "ControllerID ir \<noteq> []"
    by (auto simp: authenticate_def split: prod.splits option.splits if_splits)
  from run s1 s2 id obtain c3 where s3: "SetBaseURL E (ControllerID ir) c2 = (None, c3)"
    by (auto simp: authenticate_def split: prod.splits option.splits)
  from run s1 s2 id s3 obtain ar c4 where
    s4: "postJSON E (Decode_auth E) ''/api/v2/login''
           (JSONBody [(''password'', password c3), (''username'', username c3)])
           authResult_zero c3 = (None, ar, c4)"
    by (auto simp: authenticate_def split: prod.splits option.splits)
  from run s1 s2 id s3 s4 have tok: "Token ar \<noteq> []"
    by (auto simp: authenticate_def split: prod.splits option.splits if_splits)
  from run s1 s2 id s3 s4 tok have final:
    "c' = (SetToken (Token ar) c4)\<lparr>logger := logger (SetToken (Token ar) c4) @
        map (\<lambda>(name, val). Info ''Cookie after login''
                            [zap_String ''name'' name, zap_String ''value'' val])
          (Jar_Cookies E (http (SetToken (Token ar) c4)) (BaseURL (SetToken (Token ar) c4)))\<rparr>"
    by (simp add: authenticate_def Let_def)
  from s1 obtain root where
    root: "url_JoinPath E (configPath c) ''/'' = Inr root" and
    c1: "c1 = ?c0\<lparr>baseURL := strings_TrimSuffix root ''/''\<rparr>"
    by (auto simp: SetBaseURL_def SetToken_def split: sum.splits)
  from getJSON_ok [OF s2] obtain q1 status1 b1 where
    c2: "c2 = c1\<lparr>http := http c1 @ [q1]\<rparr>" and
    q1: "Method q1 = ''GET''" "URL q1 = baseURL c1 @ ''/api/info''" and
    a1: "http_Do E (http c1 @ [q1]) = Response 200 status1 b1"
        "Decode_info E b1 infoResult_zero = Some ir"
    by blast
  from s3 obtain joined where
    joined: "url_JoinPath E (configPath c2) (ControllerID ir) = Inr joined" and
    c3: "c3 = c2\<lparr>baseURL := strings_TrimSuffix joined ''/''\<rparr>"
    by (auto simp: SetBaseURL_def split: sum.splits)
  from postJSON_ok [OF s4] obtain q2 status2 b2 where
    c4: "c4 = c3\<lparr>http := http c3 @ [q2]\<rparr>" and
    q2: "Method q2 = ''POST''" "URL q2 = baseURL c3 @ ''/api/v2/login''"
        "Body q2 = JSONBody [(''password'', password c3), (''username'', username c3)]" and
    a2: "http_Do E (http c3 @ [q2]) = Response 200 status2 b2"
        "Decode_auth E b2 authResult_zero = Some ar"
    by blast
  have "http c' = http c @ [q1, q2]"
    by (simp add: final c4 c3 c2 c1 SetToken_def)
  moreover have "baseURL c' = strings_TrimSuffix joined ''/''"
    by (simp add: final c4 c3 SetToken_def)
  moreover have "token c' = Token ar"
    by (simp add: final SetToken_def)
  moreover have "URL q1 = strings_TrimSuffix root ''/'' @ ''/api/info''"
    by (simp add: q1 c1)
  moreover have "http_Do E (http c @ [q1]) = Response 200 status1 b1"
    using a1(1) by (simp add: c1 SetToken_def)
  moreover have "url_JoinPath E (configPath c) (ControllerID ir) = Inr joined"
    using joined by (simp add: c2 c1 SetToken_def)
  moreover have "URL q2 = baseURL c' @ ''/api/v2/login''"
    by (simp add: q2 final c4 c3 SetToken_def)
  moreover have "Body q2 = JSONBody [(''password'', password c), (''username'', username c)]"
    by (simp add: q2 c3 c2 c1 SetToken_def)
  moreover have "http_Do E (http c') = Response 200 status2 b2"
    using a2(1) by (simp add: final c4 SetToken_def)
  ultimately show ?thesis
    using root q1(1) a1(2) id q2(1) a2(2) by blast
qed

text \<open>
  C9. After \<open>authenticate\<close> the token is not empty exactly when it returned no error.
  Every request that it sends carries the empty token, and the first of them, on every
  path, goes to \<open>/api/info\<close> under the join of \<open>configPath\<close> and \<open>/\<close> without its
  final \<open>/\<close>: the token and the base URL are reset before anything is sent. Only when
  that join fails is the base URL left as it was, and the error returned with the empty
  token. When it succeeds it has sent two requests, both answered with the status 200: the
  controller identity is decoded from the first answer and is not empty, the base URL is
  the join of \<open>configPath\<close> and that identity without a final \<open>/\<close>, which on a plain
  \<open>configPath\<close> and a plain identity is the \<open>configPath\<close> without its final \<open>/\<close>,
  then \<open>/\<close> and the identity; the login is posted under that base URL, and the token is
  the one decoded from its answer. A request made afterwards goes to the new base URL,
  carries the new token, and changes neither.
\<close>

theorem authenticate_session:
  assumes run: "authenticate E c = (err, c')"
  shows "(token c' \<noteq> [] \<longleftrightarrow> err = None)
    \<and> configPath c' = configPath c \<and> username c' = username c \<and> password c' = password c
    \<and> (\<forall>q \<in> set (drop (length (http c)) (http c')). Header_Get q ''Csrf-Token'' = Some [])
    \<and> (\<forall>msg. url_JoinPath E (configPath c) ''/'' = Inl msg \<longrightarrow>
          err = Some msg \<and> c' = c\<lparr>token := []\<rparr>)
    \<and> (\<forall>root. url_JoinPath E (configPath c) ''/'' = Inr root \<longrightarrow>
          (\<forall>q \<in> set (take 1 (drop (length (http c)) (http c'))).
             URL q = strings_TrimSuffix root ''/'' @ ''/api/info''))
    \<and> (err = None \<longrightarrow>
         (\<exists>q1 q2 status1 b1 status2 b2 ir ar root joined.
             http c' = http c @ [q1, q2]
           \<and> url_JoinPath E (configPath c) ''/'' = Inr root
           \<and> Method q1 = ''GET'' \<and> URL q1 = strings_TrimSuffix root ''/'' @ ''/api/info''
           \<and> http_Do E (http c @ [q1]) = Response 200 status1 b1
           \<and> Decode_info E b1 infoResult_zero = Some ir \<and> ControllerID ir \<noteq> []
           \<and> url_JoinPath E (configPath c) (ControllerID ir) = Inr joined
           \<and> baseURL c' = strings_TrimSuffix joined ''/''
           \<and> (plain_url (configPath c) \<and> plain_segment (ControllerID ir) \<longrightarrow>
                baseURL c' = strings_TrimSuffix (configPath c) ''/'' @ ''/'' @ ControllerID ir)
           \<and> Method q2 = ''POST'' \<and> URL q2 = baseURL c' @ ''/api/v2/login''
           \<and> Body q2 = JSONBody [(''password'', password c), (''username'', username c)]
           \<and> http_Do E (http c') = Response 200 status2 b2
           \<and> Decode_auth E b2 authResult_zero = Some ar
           \<and> token c' = Token ar))
    \<and> (\<forall>(decode :: string \<Rightarrow> 'a \<Rightarrow> 'a option) url target e t k.
          getJSON E decode url target c' = (e, t, k) \<longrightarrow>
            token k = token c' \<and> baseURL k = baseURL c'
            \<and> (k = c' \<or> (\<exists>q. http k = http c' @ [q] \<and> URL q = baseURL c' @ url
                               \<and> Header_Get q ''Csrf-Token'' = Some (token c'))))"
proof -
  have later: "\<forall>(decode :: string \<Rightarrow> 'a \<Rightarrow> 'a option) url target e t k.
      getJSON E decode url target c' = (e, t, k) \<longrightarrow>
        token k = token c' \<and> baseURL k = baseURL c'
        \<and> (k = c' \<or> (\<exists>q. http k = http c' @ [q] \<and> URL q = baseURL c' @ url
                           \<and> Header_Get q ''Csrf-Token'' = Some (token c')))"
  proof (intro allI impI)
    fix decode :: "string \<Rightarrow> 'a \<Rightarrow> 'a option" and url target e t k
    assume "getJSON E decode url target c' = (e, t, k)"
    from getJSON_session [OF this] show "token k = token c' \<and> baseURL k = baseURL c'
        \<and> (k = c' \<or> (\<exists>q. http k = http c' @ [q] \<and> URL q = baseURL c' @ url
                           \<and> Header_Get q ''Csrf-Token'' = Some (token c')))"
      by blast
  qed
  have success: "\<exists>q1 q2 status1 b1 status2 b2 ir ar root joined.
             http c' = http c @ [q1, q2]
           \<and> url_JoinPath E (configPath c) ''/'' = Inr root
           \<and> Method q1 = ''GET'' \<and> URL q1 = strings_TrimSuffix root ''/'' @ ''/api/info''
           \<and> http_Do E (http c @ [q1]) = Response 200 status1 b1
           \<and> Decode_info E b1 infoResult_zero = Some ir \<and> ControllerID ir \<noteq> []
           \<and> url_JoinPath E (configPath c) (ControllerID ir) = Inr joined
           \<and> baseURL c' = strings_TrimSuffix joined ''/''
           \<and> (plain_url (configPath c) \<and> plain_segment (ControllerID ir) \<longrightarrow>
                baseURL c' = strings_TrimSuffix (configPath c) ''/'' @ ''/'' @ ControllerID ir)
           \<and> Method q2 = ''POST'' \<and> URL q2 = baseURL c' @ ''/api/v2/login''
           \<and> Body q2 = JSONBody [(''password'', password c), (''username'', username c)]
           \<and> http_Do E (http c') = Response 200 status2 b2
           \<and> Decode_auth E b2 authResult_zero = Some ar
           \<and> token c' = Token ar"
    if ok: "err = None"
  proof -
    from run ok have "authenticate E c = (None, c')" by simp
    from authenticate_success [OF this] obtain q1 q2 status1 b1 status2 b2 ir ar root joined where
      facts: "http c' = http c @ [q1, q2]"
        "url_JoinPath E (configPath c) ''/'' = Inr root"
        "Method q1 = ''GET''" "URL q1 = strings_TrimSuffix root ''/'' @ ''/api/info''"
        "http_Do E (http c @ [q1]) = Response 200 status1 b1"
        "Decode_info E b1 infoResult_zero = Some ir" "ControllerID ir \<noteq> []"
        "url_JoinPath E (configPath c) (ControllerID ir) = Inr joined"
        "baseURL c' = strings_TrimSuffix joined ''/''"
        "Method q2 = ''POST''" "URL q2 = baseURL c' @ ''/api/v2/login''"
        "Body q2 = JSONBody [(''password'', password c), (''username'', username c)]"
        "http_Do E (http c') = Response 200 status2 b2"
        "Decode_auth E b2 authResult_zero = Some ar"
        "token c' = Token ar"
      by blast
    have "baseURL c' = strings_TrimSuffix (configPath c) ''/'' @ ''/'' @ ControllerID ir"
      if plain: "plain_url (configPath c) \<and> plain_segment (ControllerID ir)"
    proof -
      from plain facts(8) have
        "joined = strings_TrimSuffix (configPath c) ''/'' @ CHR ''/'' # ControllerID ir"
        by (simp add: url_JoinPath_plain)
      moreover from plain have "\<not> strings_HasSuffix
          (strings_TrimSuffix (configPath c) ''/'' @ CHR ''/'' # ControllerID ir) ''/''"
        by (simp add: plain_segment_last)
      ultimately show ?thesis
        using facts(9) by (simp add: strings_TrimSuffix_other)
    qed
    with facts show ?thesis by blast
  qed
  from authenticate_token [OF run] authenticate_requests [OF run] authenticate_reset [OF run]
    success later
  show ?thesis by blast
qed


lemma demo_authenticate_no_identity:
  "authenticate (demo_env\<lparr>Decode_info := (\<lambda>b t. Some t)\<rparr>) (demo_client ''T0'' []) =
     (Some (MissingControllerID 0 []),
      (demo_client [] [info_request])\<lparr>baseURL := ''https://omada.local:8043''\<rparr>)"
  by (simp add: demo_defs exec_defs plain_defs)

lemma demo_authenticate_no_root:
  "authenticate demo_env ((demo_client ''T0'' [])\<lparr>configPath := ''%zz''\<rparr>) =
     (Some (URLError ''not a plain URL''),
      ((demo_client ''T0'' [])\<lparr>configPath := ''%zz''\<rparr>)\<lparr>token := []\<rparr>)"
  by (simp add: demo_defs exec_defs plain_defs)

lemma demo_no_root:
  "url_JoinPath demo_env (configPath ((demo_client ''T0'' [])\<lparr>configPath := ''%zz''\<rparr>)) ''/'' =
     Inl (URLError ''not a plain URL'')"
  by (simp add: demo_defs url_JoinPath_def plain_defs)

lemma demo_getJSON:
  "getJSON demo_env (Decode_clients demo_env) (clients_path ''Default'' (Suc 0)) r (demo_client ''T1'' h) =
     (None, page_first, demo_client ''T1'' (h @ [clients_request ''Default'' (Suc 0) ''T1'']))"
  by (simp add: demo_defs exec_defs page_first_def demo_page_def)

theorem authenticate_session_witness:
  "authenticate demo_env (demo_client ''T0'' []) =
     (None, demo_client ''T1'' [info_request, login_request])
   \<and> token (demo_client ''T1'' [info_request, login_request]) = ''T1''
   \<and> plain_url (configPath (demo_client ''T0'' [])) \<and> plain_segment ''abc123''
   \<and> baseURL (demo_client ''T1'' [info_request, login_request]) =
       strings_TrimSuffix ''https://omada.local:8043/'' ''/'' @ ''/'' @ ''abc123''
   \<and> Header_Get info_request ''Csrf-Token'' = Some [] \<and> Header_Get login_request ''Csrf-Token'' = Some []
   \<and> getJSON demo_env (Decode_clients demo_env) (clients_path ''Default'' 1) ClientsResult_zero
         (demo_client ''T1'' [info_request, login_request]) =
       (None, page_first,
        demo_client ''T1'' [info_request, login_request, clients_request ''Default'' 1 ''T1''])
   \<and> URL (clients_request ''Default'' 1 ''T1'') =
       baseURL (demo_client ''T1'' [info_request, login_request]) @ clients_path ''Default'' 1
   \<and> Header_Get (clients_request ''Default'' 1 ''T1'') ''Csrf-Token'' = Some ''T1''
   \<and> authenticate (demo_env\<lparr>Decode_info := (\<lambda>b t. Some t)\<rparr>) (demo_client ''T0'' []) =
       (Some (MissingControllerID 0 []),
        (demo_client [] [info_request])\<lparr>baseURL := ''https://omada.local:8043''\<rparr>)
   \<and> token ((demo_client [] [info_request])\<lparr>baseURL := ''https://omada.local:8043''\<rparr>) = []
   \<and> url_JoinPath demo_env (configPath ((demo_client ''T0'' [])\<lparr>configPath := ''%zz''\<rparr>)) ''/'' =
       Inl (URLError ''not a plain URL'')
   \<and> authenticate demo_env ((demo_client ''T0'' [])\<lparr>configPath := ''%zz''\<rparr>) =
       (Some (URLError ''not a plain URL''),
        ((demo_client ''T0'' [])\<lparr>configPath := ''%zz''\<rparr>)\<lparr>token := []\<rparr>)"
proof -
  have ok: "authenticate demo_env (demo_client ''T0'' []) =
      (None, demo_client ''T1'' [info_request, login_request])"
    by (simp add: demo_authenticate)
  have plain: "plain_url (configPath (demo_client ''T0'' []))" "plain_segment ''abc123''"
    by (simp_all add: demo_client_def plain_defs)
  have fields: "token (demo_client ''T1'' [info_request, login_request]) = ''T1''"
    "baseURL (demo_client ''T1'' [info_request, login_request]) =
       strings_TrimSuffix ''https://omada.local:8043/'' ''/'' @ ''/'' @ ''abc123''"
    "token ((demo_client [] [info_request])\<lparr>baseURL := ''https://omada.local:8043''\<rparr>) = []"
    by (simp_all add: demo_client_def demo_base_def strings_TrimSuffix_def strings_HasSuffix_def)
  have tokens: "Header_Get info_request ''Csrf-Token'' = Some []"
    "Header_Get login_request ''Csrf-Token'' = Some []"
    "Header_Get (clients_request ''Default'' 1 ''T1'') ''Csrf-Token'' = Some ''T1''"
    "URL (clients_request ''Default'' 1 ''T1'') =
       baseURL (demo_client ''T1'' [info_request, login_request]) @ clients_path ''Default'' 1"
    by (simp_all add: Header_Get_def info_request_def login_request_def clients_request_def
        demo_request_def demo_client_def)
  have later: "getJSON demo_env (Decode_clients demo_env) (clients_path ''Default'' 1)
        ClientsResult_zero (demo_client ''T1'' [info_request, login_request]) =
      (None, page_first,
       demo_client ''T1'' [info_request, login_request, clients_request ''Default'' 1 ''T1''])"
    by (simp add: demo_getJSON)
  from authenticate_session [OF ok, where ?'a = ClientsResult]
    authenticate_session [OF demo_authenticate_no_identity, where ?'a = ClientsResult]
    authenticate_session [OF demo_authenticate_no_root, where ?'a = ClientsResult]
    ok plain fields tokens later demo_authenticate_no_identity demo_authenticate_no_root
    demo_no_root
  show ?thesis by simp
qed

section \<open>The claim about the site in the request path\<close>

lemma url_QueryEscape_no_space:
  "CHR '' '' \<notin> set site \<Longrightarrow> url_QueryEscape site = percent_encode site"
  by (induction site) (auto simp: url_QueryEscape_def shouldEscape_def)

lemma hexval_upperhex: "n < 16 \<Longrightarrow> hexval (upperhex n) = Some n"
proof -
  assume small: "n < 16"
  have "list_all (\<lambda>k. hexval (upperhex k) = Some k) [0..<16]"
    by code_simp
  with small show ?thesis
    by (simp add: list_all_iff)
qed

lemma of_char_nibbles:
  "(of_char c :: nat) div 16 < 16" "(of_char c :: nat) mod 16 < 16"
proof -
  have "(of_char c :: nat) < 256" by (rule nat_of_char_less_256)
  then show "(of_char c :: nat) div 16 < 16" by arith
  show "(of_char c :: nat) mod 16 < 16" by simp
qed

lemma unreserved_not_percent: "unreserved c \<Longrightarrow> c \<noteq> CHR ''%''"
  by (auto simp: unreserved_def alphanum_def)

lemma percent_decode_escape:
  "percent_decode (escape s) = Some (map (\<lambda>c. if c = CHR '' '' then CHR ''+'' else c) s)"
proof (induction s)
  case Nil
  then show ?case by simp
next
  case (Cons c s)
  show ?case
  proof (cases "c = CHR '' ''")
    case True
    with Cons show ?thesis by simp
  next
    case False
    show ?thesis
    proof (cases "shouldEscape c")
      case True
      have "char_of (16 * ((of_char c :: nat) div 16) + (of_char c :: nat) mod 16) = c"
        by simp
      with True False Cons show ?thesis
        by (simp add: hexval_upperhex of_char_nibbles)
    next
      case no: False
      then have "c \<noteq> CHR ''%''"
        by (auto simp: shouldEscape_def dest: unreserved_not_percent)
      with no False Cons show ?thesis by simp
    qed
  qed
qed

lemma url_QueryEscape_read_back:
  "percent_decode (url_QueryEscape site) = Some site \<longleftrightarrow> CHR '' '' \<notin> set site"
proof -
  have "map (\<lambda>c. if c = CHR '' '' then CHR ''+'' else c) site = site \<longleftrightarrow> CHR '' '' \<notin> set site"
    by (induction site) auto
  then show ?thesis
    by (simp add: url_QueryEscape_def percent_decode_escape)
qed

lemma get_sends_clients_path:
  assumes "get E site page r c = (err, r', c')"
    and "NewRequest_error E (BaseURL c @ clients_path site page) = None"
  shows "\<exists>q. http c' = http c @ [q] \<and> URL q = baseURL c @ clients_path site page"
proof -
  obtain e t k where inner:
    "getJSON E (Decode_clients E) (clients_path site page) r c = (e, t, k)"
    by (cases "getJSON E (Decode_clients E) (clients_path site page) r c") auto
  with assms(1) have "k = c'"
    by (auto simp: get_def Let_def split: option.splits if_splits)
  with getJSON_cases [OF inner] assms(2) have "doJSON E (Decode_clients E)
      \<lparr>Method = ''GET'', URL = baseURL c @ clients_path site page, Header = [], Cookie = [],
         Body = NoBody\<rparr> r c = (e, t, c')"
    by (auto simp: BaseURL_def)
  from doJSON_session [OF this] show ?thesis by auto
qed

text \<open>
  C8. The site goes through \<open>url.QueryEscape\<close>, the escaping of a query component,
  which writes a space as \<open>+\<close>. For the site \<open>my site\<close> the segment in the request
  path is \<open>my+site\<close>; its percent-encoding is \<open>my%20site\<close>, and decoding the segment
  as a path segment gives \<open>my+site\<close>, another site. The path is the one that the
  request carries (\<open>get_sends_clients_path\<close>). In general the segment reads back as
  the site with every space replaced by \<open>+\<close> (\<open>percent_decode_escape\<close>), so it
  reads back as the site exactly when the site has no space
  (\<open>url_QueryEscape_read_back\<close>), and then it is the percent-encoding of the site
  (\<open>url_QueryEscape_no_space\<close>).
\<close>

theorem clients_path_space_not_percent_encoded:
  "clients_path ''my site'' 1 =
     ''/api/v2/sites/my+site/clients?currentPage=1&currentPageSize=100&filters.active=true''
   \<and> url_QueryEscape ''my site'' = ''my+site''
   \<and> percent_encode ''my site'' = ''my%20site''
   \<and> percent_decode (url_QueryEscape ''my site'') = Some ''my+site''
   \<and> percent_decode (percent_encode ''my site'') = Some ''my site''"
  by code_simp


end
